theory Spec2Isabelle
  imports Main "HOL-Library.Sublist"
begin

section \<open>Data model of quick\_tunnel.go\<close>

text \<open>
  Go strings and byte slices are byte sequences: \<open>string\<close>. A \<open>uuid.UUID\<close> is an
  array of 16 bytes. The struct types follow the declarations at the end of
  quick\_tunnel.go; \<open>connection.Credentials\<close> and \<open>connection.NamedTunnelConfig\<close>
  are declared in the cloudflared library and are modelled from the composite literals at
  lines 132--137 and 84.
\<close>

type_synonym bytes = string
type_synonym path = string
type_synonym UUID = string

record Credentials =
  AccountTag :: string
  TunnelSecret :: bytes
  TunnelID :: UUID
  TunnelName :: string

record QuickTunnelConfig =
  URL :: string
  Credentials :: Credentials

text \<open>The field \<open>Credentials\<close> of \<open>NamedTunnelConfig\<close> is called \<open>NamedCredentials\<close>
  here, because record fields share one name space.\<close>

record NamedTunnelConfig =
  NamedCredentials :: Credentials
  QuickTunnelUrl :: string

record QuickTunnelError =
  Code :: int
  Message :: string

text \<open>The field \<open>AccountTag\<close> of \<open>QuickTunnel\<close> (JSON key \<open>account_tag\<close>) is called
  \<open>ResultAccountTag\<close> here, for the same reason.\<close>

record QuickTunnel =
  ID :: string
  Name :: string
  Hostname :: string
  ResultAccountTag :: string
  Secret :: bytes

record QuickTunnelResponse =
  Success :: bool
  Result :: QuickTunnel
  Errors :: "QuickTunnelError list"

subsection \<open>Errors\<close>

text \<open>
  Go \<open>error\<close> values. Errors made by the libraries are opaque and carry the library's
  message; \<open>New\<close> and \<open>Wrap\<close> are \<open>errors.New\<close> and \<open>errors.Wrap\<close> of pkg/errors, the
  only errors the program makes itself. \<open>errors.Is(err, os.ErrNotExist)\<close> holds exactly
  of \<open>ErrNotExist\<close>.
\<close>

datatype os_error = ErrNotExist | ErrPermission | ErrOther string

datatype error =
    HttpError string
  | JsonError string
  | UuidError string
  | OsError os_error
  | ConnectorError string
  | New string
  | Wrap error string

text \<open>\<open>err.Error()\<close>, the text that is logged.\<close>

fun os_error_text :: "os_error \<Rightarrow> string" where
  "os_error_text ErrNotExist = ''file does not exist''"
| "os_error_text ErrPermission = ''permission denied''"
| "os_error_text (ErrOther m) = m"

fun Error :: "error \<Rightarrow> string" where
  "Error (HttpError m) = m"
| "Error (JsonError m) = m"
| "Error (UuidError m) = m"
| "Error (OsError e) = os_error_text e"
| "Error (ConnectorError m) = m"
| "Error (New m) = m"
| "Error (Wrap err m) = m @ '': '' @ Error err"

text \<open>How a call of \<open>RunPersistentQuickTunnel\<close> ends: it returns its \<open>error\<close> result
  (\<open>None\<close> is Go's \<open>nil\<close>), or it panics.\<close>

datatype outcome = Returned "error option" | Panicked string

subsection \<open>The command line context\<close>

text \<open>\<open>cli.Context\<close>, as far as the program uses it: \<open>c.String\<close>, \<open>c.IsSet\<close>
  and \<open>c.Set\<close>.\<close>

record Context =
  flag_value :: "string \<Rightarrow> string"
  flag_set :: "string \<Rightarrow> bool"

definition ctx_String :: "Context \<Rightarrow> string \<Rightarrow> string" where
  "ctx_String c name = flag_value c name"

definition ctx_IsSet :: "Context \<Rightarrow> string \<Rightarrow> bool" where
  "ctx_IsSet c name = flag_set c name"

definition ctx_Set :: "Context \<Rightarrow> string \<Rightarrow> string \<Rightarrow> Context" where
  "ctx_Set c name v =
     c\<lparr>flag_value := (flag_value c)(name := v), flag_set := (flag_set c)(name := True)\<rparr>"

subsection \<open>The world outside the program\<close>

text \<open>
  Every call that leaves the program is recorded as an event together with its result.
\<close>

datatype event =
    EvStat path "os_error option"
  | EvPostTunnel string "string + bytes"
  | EvPostCallback nat string bytes "string + int"
  | EvWriteFile path bytes "os_error option"
  | EvReadFile path "os_error option"
  | EvStartServer NamedTunnelConfig "string option"
  | EvRemove path "os_error option"

record world =
  files :: "path \<rightharpoonup> bytes"
  trace :: "event list"
  logs :: "string list"

datatype os_op = OpStat | OpRead | OpWrite | OpRemove

datatype backoff = Stop | Wait nat

text \<open>
  What the libraries and the network answer. None of this code is part of the
  repository, so each is a parameter:
  \<^item> \<open>faults\<close>: an operating system call on a path fails with this error (permissions, I/O);
  \<^item> \<open>partial_write\<close>: what a failed \<open>ioutil.WriteFile\<close> leaves behind. The call opens
    the file with \<open>O_CREATE|O_TRUNC\<close> and then writes: \<open>None\<close> when the open failed and
    nothing changed, \<open>Some n\<close> when the file was created or truncated and \<open>n\<close> bytes
    were written before the failure;
  \<^item> \<open>http_Post_tunnel\<close>: \<open>client.Post\<close> to the provisioning service, a transport error
    or the response body;
  \<^item> \<open>Decode\<close>: \<open>json.NewDecoder(resp.Body).Decode(&data)\<close>;
  \<^item> \<open>uuid_Parse\<close>: \<open>uuid.Parse\<close>;
  \<^item> \<open>http_Post_callback\<close>: the \<open>n\<close>-th \<open>http.Post\<close> to the callback: a transport
    error or the status code, or \<open>None\<close> when the call never returns (\<open>http.Post\<close> uses
    the default client, which has no timeout, so a listener that accepts the connection
    and stays silent blocks the call for ever);
  \<^item> \<open>NextBackOff\<close>: what the policy made by \<open>backoff.NewExponentialBackOff()\<close> answers
    after the \<open>n\<close>-th failed attempt: wait for a delay, or stop (the policy reads the
    clock and draws the jitter at random);
  \<^item> \<open>MarshalIndent\<close> and \<open>Unmarshal\<close>: encoding/json on \<open>QuickTunnelConfig\<close>;
    \<open>Unmarshal\<close> gives the pointer stored in \<open>config\<close> (\<open>None\<close> is \<open>nil\<close>) and the error;
  \<^item> \<open>StartServer\<close>: the tunnel connector, \<open>tunnel.StartServer\<close>: the error it
    returns (\<open>None\<close> is \<open>nil\<close>), or \<open>None\<close> when the call never returns (the
    connector serves until it fails or is shut down).
\<close>

record env =
  faults :: "os_op \<Rightarrow> path \<Rightarrow> os_error option"
  partial_write :: "path \<Rightarrow> nat option"
  http_Post_tunnel :: "string \<Rightarrow> string + bytes"
  Decode :: "bytes \<Rightarrow> string + QuickTunnelResponse"
  uuid_Parse :: "string \<Rightarrow> string + UUID"
  http_Post_callback :: "nat \<Rightarrow> string \<Rightarrow> bytes \<Rightarrow> (string + int) option"
  NextBackOff :: "nat \<Rightarrow> backoff"
  MarshalIndent :: "QuickTunnelConfig \<Rightarrow> bytes \<times> string option"
  Unmarshal :: "bytes \<Rightarrow> QuickTunnelConfig option \<times> string option"
  StartServer :: "Context \<Rightarrow> string \<Rightarrow> NamedTunnelConfig \<Rightarrow> string option option"

definition emit :: "event \<Rightarrow> world \<Rightarrow> world" where
  "emit e w = w\<lparr>trace := trace w @ [e]\<rparr>"

definition log_Msg :: "string \<Rightarrow> world \<Rightarrow> world" where
  "log_Msg m w = w\<lparr>logs := logs w @ [m]\<rparr>"

subsection \<open>Operating system calls\<close>

text \<open>\<open>os.Stat\<close>: only the error is used by the program.\<close>

definition os_Stat :: "env \<Rightarrow> path \<Rightarrow> world \<Rightarrow> os_error option \<times> world" where
  "os_Stat E p w =
     (let r = (case faults E OpStat p of
                 Some e \<Rightarrow> Some e
               | None \<Rightarrow> (case files w p of None \<Rightarrow> Some ErrNotExist | Some b \<Rightarrow> None))
      in (r, emit (EvStat p r) w))"

text \<open>\<open>ioutil.ReadFile\<close>: the content, or \<open>nil\<close> (the empty slice) and the error.\<close>

definition ioutil_ReadFile :: "env \<Rightarrow> path \<Rightarrow> world \<Rightarrow> (bytes \<times> os_error option) \<times> world" where
  "ioutil_ReadFile E p w =
     (let r = (case faults E OpRead p of
                 Some e \<Rightarrow> ([], Some e)
               | None \<Rightarrow> (case files w p of None \<Rightarrow> ([], Some ErrNotExist) | Some b \<Rightarrow> (b, None)))
      in (r, emit (EvReadFile p (snd r)) w))"

text \<open>\<open>ioutil.WriteFile\<close>: creates or overwrites the file. A failed call leaves the
  files as they were when the open failed, and the file created or truncated, with the
  bytes written so far, when the write failed.\<close>

definition ioutil_WriteFile :: "env \<Rightarrow> path \<Rightarrow> bytes \<Rightarrow> world \<Rightarrow> os_error option \<times> world" where
  "ioutil_WriteFile E p b w =
     (case faults E OpWrite p of
        Some e \<Rightarrow>
          (Some e,
           emit (EvWriteFile p b (Some e))
             (case partial_write E p of
                None \<Rightarrow> w
              | Some n \<Rightarrow> w\<lparr>files := (files w)(p \<mapsto> take n b)\<rparr>))
      | None \<Rightarrow> (None, emit (EvWriteFile p b None) (w\<lparr>files := (files w)(p \<mapsto> b)\<rparr>)))"

text \<open>\<open>os.Remove\<close>.\<close>

definition os_Remove :: "env \<Rightarrow> path \<Rightarrow> world \<Rightarrow> os_error option \<times> world" where
  "os_Remove E p w =
     (case faults E OpRemove p of
        Some e \<Rightarrow> (Some e, emit (EvRemove p (Some e)) w)
      | None \<Rightarrow>
          (case files w p of
             None \<Rightarrow> (Some ErrNotExist, emit (EvRemove p (Some ErrNotExist)) w)
           | Some b \<Rightarrow> (None, emit (EvRemove p None) (w\<lparr>files := (files w)(p := None)\<rparr>))))"

section \<open>The banner\<close>

fun maxLen :: "string list \<Rightarrow> nat" where
  "maxLen lines = foldl (\<lambda>mx line. if length line > mx then length line else mx) 0 lines"

text \<open>\<open>AsciiBox\<close>; \<open>padding\<close> is 2 at the only call, and \<open>maxLen lines - length line\<close>
  is never negative.\<close>

definition AsciiBox :: "string list \<Rightarrow> nat \<Rightarrow> string list" where
  "AsciiBox lines padding =
     (let m = maxLen lines;
          spacer = replicate padding CHR '' '';
          border = ''+'' @ replicate (m + padding * 2) CHR ''-'' @ ''+''
      in [border]
         @ map (\<lambda>line. ''|'' @ spacer @ line @ replicate (m - length line) CHR '' '' @ spacer @ ''|'') lines
         @ [border])"

definition disclaimer :: string where
  "disclaimer =
     ''Thank you for trying Cloudflare Tunnel. Doing so, without a Cloudflare account, is a quick way to''
     @ '' experiment and try it out. However, be aware that these account-less Tunnels have no uptime guarantee. If you ''
     @ ''intend to use Tunnels in production you should use a pre-created named tunnel by following: ''
     @ ''https://developers.cloudflare.com/cloudflare-one/connections/connect-apps''"

section \<open>RequestNewQuickTunnel\<close>

text \<open>
  Lines 104--152. The result is \<open>Inl err\<close> for \<open>(nil, err)\<close> and \<open>Inr config\<close> for
  \<open>(&config, nil)\<close>. The local \<open>url\<close> gets the scheme and goes to the banner; the
  struct returned at line 151 is built from \<open>data.Result.Hostname\<close>.
\<close>

definition RequestNewQuickTunnel ::
    "env \<Rightarrow> Context \<Rightarrow> world \<Rightarrow> (error + QuickTunnelConfig) \<times> world" where
  "RequestNewQuickTunnel E c w0 =
     (let w1 = log_Msg disclaimer w0;
          w2 = log_Msg ''Requesting new quick Tunnel on trycloudflare.com...'' w1;
          target = ctx_String c ''quick-service'' @ ''/tunnel'';
          resp = http_Post_tunnel E target;
          w3 = emit (EvPostTunnel target resp) w2
      in case resp of
           Inl err \<Rightarrow> (Inl (Wrap (HttpError err) ''failed to request quick Tunnel''), w3)
         | Inr body \<Rightarrow>
             (case Decode E body of
                Inl err \<Rightarrow> (Inl (Wrap (JsonError err) ''failed to unmarshal quick Tunnel''), w3)
              | Inr data \<Rightarrow>
                  (case uuid_Parse E (ID (Result data)) of
                     Inl err \<Rightarrow> (Inl (Wrap (UuidError err) ''failed to parse quick Tunnel ID''), w3)
                   | Inr tunnelID \<Rightarrow>
                       (let credentials =
                              \<lparr>AccountTag = ResultAccountTag (Result data),
                               TunnelSecret = Secret (Result data),
                               TunnelID = tunnelID,
                               TunnelName = Name (Result data)\<rparr>;
                            url = Hostname (Result data);
                            url = (if \<not> prefix ''https://'' url then ''https://'' @ url else url);
                            w4 = foldl (\<lambda>w line. log_Msg line w) w3
                                   (AsciiBox
                                      [''Your quick Tunnel has been created! Visit it at (it may take some time to be reachable):'',
                                       url] 2)
                        in (Inr \<lparr>URL = Hostname (Result data), Credentials = credentials\<rparr>, w4)))))"

section \<open>RunPersistentQuickTunnel\<close>

text \<open>
  The closure \<open>callbackOperation\<close> of lines 46--56, at its \<open>n\<close>-th call. The result is
  \<open>None\<close> when \<open>http.Post\<close> never returns.
\<close>

definition callbackOperation ::
    "env \<Rightarrow> Context \<Rightarrow> QuickTunnelConfig \<Rightarrow> nat \<Rightarrow> world \<Rightarrow> (error option \<times> world) option" where
  "callbackOperation E c config n w =
     (let target = ctx_String c ''url'' @ ''/'' @ ctx_String c ''callback''
      in case http_Post_callback E n target (URL config) of
           None \<Rightarrow> None
         | Some resp \<Rightarrow>
             (let w' = emit (EvPostCallback n target (URL config) resp) w
              in case resp of
                   Inl err \<Rightarrow> Some (Some (HttpError err), w')
                 | Inr StatusCode \<Rightarrow>
                     if StatusCode \<ge> 200 \<and> StatusCode \<le> 299 then Some (None, w')
                     else Some (Some (New ''Callback error''), w')))"

text \<open>
  \<open>backoff.Retry\<close>: call the operation until it succeeds or the policy says stop, and
  then return the last error. The loop has no bound of its own, so the function is
  partial: \<open>None\<close> means that it never returns, because the loop goes on for ever or
  because a call of the operation never returns.
\<close>

partial_function (option) Retry ::
    "(nat \<Rightarrow> world \<Rightarrow> (error option \<times> world) option) \<Rightarrow> (nat \<Rightarrow> backoff) \<Rightarrow> nat \<Rightarrow> world
      \<Rightarrow> (error option \<times> world) option" where
  "Retry operation b n w =
     (case operation n w of
        None \<Rightarrow> None
      | Some (None, w') \<Rightarrow> Some (None, w')
      | Some (Some err, w') \<Rightarrow>
          (case b n of
             Stop \<Rightarrow> Some (Some err, w')
           | Wait d \<Rightarrow> Retry operation b (Suc n) w'))"

declare Retry.simps [code]

text \<open>
  Lines 75--101, the part shared by both branches. \<open>config\<close> is the pointer: reading
  \<open>config.URL\<close> at line 75 through \<open>nil\<close> panics. \<open>None\<close>: the connector, and so
  the call, never returns.
\<close>

definition start_tunnel ::
    "env \<Rightarrow> Context \<Rightarrow> string \<Rightarrow> path \<Rightarrow> QuickTunnelConfig option \<Rightarrow> bool \<Rightarrow> world
      \<Rightarrow> (outcome \<times> world) option" where
  "start_tunnel E c version configFile config existingTunnel w0 =
     (case config of
        None \<Rightarrow> Some (Panicked ''invalid memory address or nil pointer dereference'', w0)
      | Some cfg \<Rightarrow>
          (let w1 = log_Msg (''Using: '' @ URL cfg) w0;
               c' = (if \<not> ctx_IsSet c ''protocol'' then ctx_Set c ''protocol'' ''quic'' else c);
               ntc = \<lparr>NamedCredentials = Credentials cfg, QuickTunnelUrl = URL cfg\<rparr>
           in case StartServer E c' version ntc of
                None \<Rightarrow> None
              | Some r \<Rightarrow>
                  (let err = map_option ConnectorError r;
                       w2 = emit (EvStartServer ntc r) w1
                   in if err = None \<or> \<not> existingTunnel then Some (Returned err, w2)
                      else
                        (case os_Remove E configFile w2 of
                           (Some deleteErr, w3) \<Rightarrow>
                             Some (Returned (Some (OsError deleteErr)),
                                   log_Msg (Error (OsError deleteErr)) w3)
                         | (None, w3) \<Rightarrow>
                             Some (Returned (Some (New ''Failed to start server. Restart to create new tunnel.'')),
                                   w3)))))"

text \<open>Lines 63--64: \<open>json.MarshalIndent\<close>, its error dropped, and \<open>ioutil.WriteFile\<close>.\<close>

definition save_config ::
    "env \<Rightarrow> path \<Rightarrow> QuickTunnelConfig \<Rightarrow> world \<Rightarrow> os_error option \<times> world" where
  "save_config E configFile config w =
     (let file = fst (MarshalIndent E config)
      in ioutil_WriteFile E configFile file w)"

text \<open>Lines 70--71: \<open>ioutil.ReadFile\<close> and \<open>json.Unmarshal\<close>, both errors dropped.\<close>

definition load_config ::
    "env \<Rightarrow> path \<Rightarrow> world \<Rightarrow> QuickTunnelConfig option \<times> world" where
  "load_config E configFile w =
     (case ioutil_ReadFile E configFile w of
        ((byteValue, rerr), w') \<Rightarrow> (fst (Unmarshal E byteValue), w'))"

text \<open>Lines 32--102. \<open>None\<close>: the call never returns.\<close>

definition RunPersistentQuickTunnel ::
    "env \<Rightarrow> Context \<Rightarrow> string \<Rightarrow> world \<Rightarrow> (outcome \<times> world) option" where
  "RunPersistentQuickTunnel E c version w0 =
     (let configFile = ctx_String c ''credentials'';
          w1 = log_Msg (''Using config file: '' @ configFile) w0
      in case os_Stat E configFile w1 of
           (st, w2) \<Rightarrow>
             if st = Some ErrNotExist then
               (case RequestNewQuickTunnel E c w2 of
                  (Inl err, w3) \<Rightarrow> Some (Returned (Some err), log_Msg (Error err) w3)
                | (Inr config, w3) \<Rightarrow>
                    (case Retry (callbackOperation E c config) (NextBackOff E) 0
                            (log_Msg ''Notifying server of changed tunnel'' w3) of
                       None \<Rightarrow> None
                     | Some (Some err, w4) \<Rightarrow> Some (Returned (Some err), log_Msg (Error err) w4)
                     | Some (None, w4) \<Rightarrow>
                         (case save_config E configFile config w4 of
                            (Some err, w5) \<Rightarrow>
                              Some (Returned (Some (OsError err)), log_Msg (Error (OsError err)) w5)
                          | (None, w5) \<Rightarrow>
                              start_tunnel E c version configFile (Some config) False w5)))
             else
               (case load_config E configFile w2 of
                  (config, w3) \<Rightarrow> start_tunnel E c version configFile config True w3))"

section \<open>Stages of a run\<close>

text \<open>The stage of the session each outside call belongs to, and the events a run
  adds to the trace.\<close>

datatype stage = Init | Provision | AnnounceCallback | Persist | Load | Connect | Delete

fun stage_of :: "event \<Rightarrow> stage" where
  "stage_of (EvStat p r) = Init"
| "stage_of (EvPostTunnel u r) = Provision"
| "stage_of (EvPostCallback n u b r) = AnnounceCallback"
| "stage_of (EvWriteFile p b r) = Persist"
| "stage_of (EvReadFile p r) = Load"
| "stage_of (EvStartServer t r) = Connect"
| "stage_of (EvRemove p r) = Delete"

definition new_events :: "world \<Rightarrow> world \<Rightarrow> event list" where
  "new_events w w' = drop (length (trace w)) (trace w')"

definition stages :: "world \<Rightarrow> world \<Rightarrow> stage list" where
  "stages w w' = map stage_of (new_events w w')"

text \<open>What one callback attempt returns, from the answer to its POST.\<close>

definition callback_error :: "string + int \<Rightarrow> error option" where
  "callback_error resp =
     (case resp of
        Inl err \<Rightarrow> Some (HttpError err)
      | Inr StatusCode \<Rightarrow>
          if StatusCode \<ge> 200 \<and> StatusCode \<le> 299 then None else Some (New ''Callback error''))"

text \<open>
  Names for the events and results of the stages of a run. What provisioning and the
  announcement return depends on the environment and not on the trace or the log of the
  world they start in (lemmas \<open>provision_result_indep\<close> and \<open>announce_result_indep\<close>
  below), so the claims state these results at the world before the run.
  \<open>announce_result\<close> is \<open>None\<close> when the retry loop never returns, \<open>Some None\<close>
  when it returns \<open>nil\<close> and \<open>Some (Some err)\<close> when it returns an error.
\<close>

definition callback_post :: "env \<Rightarrow> Context \<Rightarrow> QuickTunnelConfig \<Rightarrow> nat \<Rightarrow> (string + int) option" where
  "callback_post E c config n =
     http_Post_callback E n (ctx_String c ''url'' @ ''/'' @ ctx_String c ''callback'') (URL config)"

text \<open>The events of the attempts \<open>ns\<close>; an attempt whose POST never returns has none.\<close>

definition callback_events :: "env \<Rightarrow> Context \<Rightarrow> QuickTunnelConfig \<Rightarrow> nat list \<Rightarrow> event list" where
  "callback_events E c config ns =
     List.map_filter
       (\<lambda>n. map_option
              (EvPostCallback n (ctx_String c ''url'' @ ''/'' @ ctx_String c ''callback'') (URL config))
              (callback_post E c config n))
       ns"

text \<open>What attempt \<open>n\<close> returns: \<open>None\<close> when its POST never returns, \<open>Some None\<close> for
  \<open>nil\<close>, \<open>Some (Some err)\<close> for an error. An attempt is retried when it returned an
  error and the policy then answered with a delay.\<close>

definition attempt :: "env \<Rightarrow> Context \<Rightarrow> QuickTunnelConfig \<Rightarrow> nat \<Rightarrow> error option option" where
  "attempt E c config n = map_option callback_error (callback_post E c config n)"

definition retried :: "env \<Rightarrow> Context \<Rightarrow> QuickTunnelConfig \<Rightarrow> nat \<Rightarrow> bool" where
  "retried E c config n =
     (case attempt E c config n of
        Some (Some err) \<Rightarrow> NextBackOff E n \<noteq> Stop
      | Some None \<Rightarrow> False
      | None \<Rightarrow> False)"

definition tunnel_event :: "env \<Rightarrow> Context \<Rightarrow> event" where
  "tunnel_event E c =
     (let target = ctx_String c ''quick-service'' @ ''/tunnel''
      in EvPostTunnel target (http_Post_tunnel E target))"

definition connector_context :: "Context \<Rightarrow> Context" where
  "connector_context c = (if \<not> ctx_IsSet c ''protocol'' then ctx_Set c ''protocol'' ''quic'' else c)"

definition connector_config :: "QuickTunnelConfig \<Rightarrow> NamedTunnelConfig" where
  "connector_config cfg = \<lparr>NamedCredentials = Credentials cfg, QuickTunnelUrl = URL cfg\<rparr>"

definition connector_result ::
    "env \<Rightarrow> Context \<Rightarrow> string \<Rightarrow> QuickTunnelConfig \<Rightarrow> string option option" where
  "connector_result E c version cfg = StartServer E (connector_context c) version (connector_config cfg)"

definition provision_result :: "env \<Rightarrow> Context \<Rightarrow> world \<Rightarrow> error + QuickTunnelConfig" where
  "provision_result E c w = fst (RequestNewQuickTunnel E c w)"

definition announce_result :: "env \<Rightarrow> Context \<Rightarrow> QuickTunnelConfig \<Rightarrow> world \<Rightarrow> error option option" where
  "announce_result E c config w =
     map_option fst (Retry (callbackOperation E c config) (NextBackOff E) 0 w)"

definition stat_event :: "env \<Rightarrow> Context \<Rightarrow> world \<Rightarrow> event" where
  "stat_event E c w =
     EvStat (ctx_String c ''credentials'') (fst (os_Stat E (ctx_String c ''credentials'') w))"

definition loaded_config :: "env \<Rightarrow> Context \<Rightarrow> world \<Rightarrow> QuickTunnelConfig option" where
  "loaded_config E c w = fst (load_config E (ctx_String c ''credentials'') w)"

definition read_event :: "env \<Rightarrow> Context \<Rightarrow> world \<Rightarrow> event" where
  "read_event E c w =
     EvReadFile (ctx_String c ''credentials'')
       (snd (fst (ioutil_ReadFile E (ctx_String c ''credentials'') w)))"

section \<open>A sample session\<close>

text \<open>
  Concrete inputs for the instances below. The flags have the defaults declared in the
  command's flag list (\<open>./credentials.json\<close>, \<open>https://api.trycloudflare.com\<close>,
  \<open>auto\<close>) and the values of the README (\<open>--url http://localhost:8080 --callback
  callback\<close>). The library parameters are tables over the documents that occur.
\<close>

definition sample_Context :: Context where
  "sample_Context =
     \<lparr>flag_value = (\<lambda>name.
        if name = ''credentials'' then ''./credentials.json''
        else if name = ''url'' then ''http://localhost:8080''
        else if name = ''callback'' then ''callback''
        else if name = ''quick-service'' then ''https://api.trycloudflare.com''
        else if name = ''protocol'' then ''auto''
        else []),
      flag_set = (\<lambda>name. name = ''url'' \<or> name = ''callback'')\<rparr>"

definition sample_uuid :: UUID where
  "sample_uuid =
     [CHR 0x6b, CHR 0xa7, CHR 0xb8, CHR 0x10, CHR 0x9d, CHR 0xad, CHR 0x11, CHR 0xd1,
      CHR 0x80, CHR 0xb4, CHR 0x00, CHR 0xc0, CHR 0x4f, CHR 0xd4, CHR 0x30, CHR 0xc8]"

definition sample_body :: bytes where
  \<open>sample_body = ''{"success":true,"result":{"id":"6ba7b810-9dad-11d1-80b4-00c04fd430c8","name":"quick","hostname":"abc.trycloudflare.com","account_tag":"acct","secret":"c2VjcmV0"},"errors":[]}''\<close>

definition refused_body :: bytes where
  \<open>refused_body = ''{"success":false,"result":{"id":"6ba7b810-9dad-11d1-80b4-00c04fd430c8","name":"quick","hostname":"abc.trycloudflare.com","account_tag":"acct","secret":"c2VjcmV0"},"errors":[{"code":1015,"message":"rate limited"}]}''\<close>

definition bad_id_body :: bytes where
  \<open>bad_id_body = ''{"success":true,"result":{"id":"not-a-uuid","name":"quick","hostname":"abc.trycloudflare.com","account_tag":"acct","secret":"c2VjcmV0"},"errors":[]}''\<close>

definition sample_response :: QuickTunnelResponse where
  "sample_response =
     \<lparr>Success = True,
      Result = \<lparr>ID = ''6ba7b810-9dad-11d1-80b4-00c04fd430c8'', Name = ''quick'',
                Hostname = ''abc.trycloudflare.com'', ResultAccountTag = ''acct'',
                Secret = ''secret''\<rparr>,
      Errors = []\<rparr>"

definition sample_Decode :: "bytes \<Rightarrow> string + QuickTunnelResponse" where
  "sample_Decode b =
     (if b = sample_body then Inr sample_response
      else if b = refused_body then
        Inr (sample_response\<lparr>Success := False,
               Errors := [\<lparr>Code = 1015, Message = ''rate limited''\<rparr>]\<rparr>)
      else if b = bad_id_body then
        Inr (sample_response\<lparr>Result := (Result sample_response)\<lparr>ID := ''not-a-uuid''\<rparr>\<rparr>)
      else Inl ''unexpected end of JSON input'')"

definition sample_uuid_Parse :: "string \<Rightarrow> string + UUID" where
  "sample_uuid_Parse s =
     (if s = ''6ba7b810-9dad-11d1-80b4-00c04fd430c8'' then Inr sample_uuid
      else if s = ''not-a-uuid'' then Inl ''invalid UUID length: 10''
      else Inl ''invalid UUID format'')"

definition sample_config :: QuickTunnelConfig where
  "sample_config =
     \<lparr>URL = ''abc.trycloudflare.com'',
      Credentials = \<lparr>AccountTag = ''acct'', TunnelSecret = ''secret'',
                     TunnelID = sample_uuid, TunnelName = ''quick''\<rparr>\<rparr>"

text \<open>The document \<open>json.MarshalIndent(config, "", " ")\<close> writes for \<open>sample_config\<close>.\<close>

definition sample_document :: bytes where
  \<open>sample_document = ''{\<newline> "URL": "abc.trycloudflare.com",\<newline> "Credentials": {\<newline>  "AccountTag": "acct",\<newline>  "TunnelSecret": "c2VjcmV0",\<newline>  "TunnelID": "6ba7b810-9dad-11d1-80b4-00c04fd430c8",\<newline>  "TunnelName": "quick"\<newline> }\<newline>}''\<close>

text \<open>A document whose \<open>Credentials\<close> member has the wrong type: \<open>json.Unmarshal\<close>
  fills \<open>URL\<close>, leaves \<open>Credentials\<close> at its zero value and returns an
  \<open>UnmarshalTypeError\<close>.\<close>

definition mistyped_document :: bytes where
  \<open>mistyped_document = ''{"URL":"abc.trycloudflare.com","Credentials":"lost"}''\<close>

definition mistyped_config :: QuickTunnelConfig where
  "mistyped_config =
     \<lparr>URL = ''abc.trycloudflare.com'',
      Credentials = \<lparr>AccountTag = [], TunnelSecret = [],
                     TunnelID = replicate 16 (CHR 0x00), TunnelName = []\<rparr>\<rparr>"

definition sample_MarshalIndent :: "QuickTunnelConfig \<Rightarrow> bytes \<times> string option" where
  "sample_MarshalIndent config =
     (if config = sample_config then (sample_document, None)
      else ([], Some ''json: unsupported value''))"

definition sample_Unmarshal :: "bytes \<Rightarrow> QuickTunnelConfig option \<times> string option" where
  "sample_Unmarshal b =
     (if b = sample_document then (Some sample_config, None)
      else if b = mistyped_document then
        (Some mistyped_config,
         Some ''json: cannot unmarshal string into Go struct field QuickTunnelConfig.Credentials of type connection.Credentials'')
      else (None, Some ''unexpected end of JSON input''))"

text \<open>Everything succeeds at once: the callback answers 200 and the connector returns
  \<open>nil\<close>.\<close>

definition sample_env :: env where
  "sample_env =
     \<lparr>faults = (\<lambda>op p. None),
      partial_write = (\<lambda>p. None),
      http_Post_tunnel = (\<lambda>target. Inr sample_body),
      Decode = sample_Decode,
      uuid_Parse = sample_uuid_Parse,
      http_Post_callback = (\<lambda>n target body. Some (Inr 200)),
      NextBackOff = (\<lambda>n. Wait 500),
      MarshalIndent = sample_MarshalIndent,
      Unmarshal = sample_Unmarshal,
      StartServer = (\<lambda>c version t. Some None)\<rparr>"

text \<open>The world before the first run, with no file, and the world before a later run,
  with the file written by the first.\<close>

definition fresh_world :: world where
  "fresh_world = \<lparr>files = Map.empty, trace = [], logs = []\<rparr>"

definition resumed_world :: world where
  "resumed_world = \<lparr>files = [''./credentials.json'' \<mapsto> sample_document], trace = [], logs = []\<rparr>"

text \<open>Variations: the connector fails, or serves for ever; the service answers with an id that is no UUID;
  the service reports failure in \<open>success\<close> and \<open>errors\<close>; the directory cannot be
  searched; the listener answers 500 twice and then 200; the listener answers 500 for
  ever, and the policy stops after the third attempt, or never; the file cannot be
  written; the listener answers 500 once and then accepts the connection and stays
  silent; \<open>os.Stat\<close> fails with an I/O error while the file can be read.\<close>

definition unreachable_env :: env where
  "unreachable_env = sample_env\<lparr>StartServer := (\<lambda>c version t. Some (Some ''edge unreachable''))\<rparr>"

definition serving_env :: env where
  "serving_env = sample_env\<lparr>StartServer := (\<lambda>c version t. None)\<rparr>"

definition bad_id_env :: env where
  "bad_id_env = sample_env\<lparr>http_Post_tunnel := (\<lambda>target. Inr bad_id_body)\<rparr>"

definition refused_env :: env where
  "refused_env = sample_env\<lparr>http_Post_tunnel := (\<lambda>target. Inr refused_body)\<rparr>"

definition denied_env :: env where
  "denied_env =
     sample_env\<lparr>faults := (\<lambda>op p. if op = OpStat \<or> op = OpRead then Some ErrPermission else None)\<rparr>"

definition late_listener_env :: env where
  "late_listener_env =
     sample_env\<lparr>http_Post_callback := (\<lambda>n target body. Some (Inr (if n < 2 then 500 else 200)))\<rparr>"

definition dead_listener_env :: env where
  "dead_listener_env =
     sample_env\<lparr>http_Post_callback := (\<lambda>n target body. Some (Inr 500)),
                NextBackOff := (\<lambda>n. if n = 0 then Wait 500 else if n = 1 then Wait 750 else Stop)\<rparr>"

definition readonly_env :: env where
  "readonly_env =
     sample_env\<lparr>faults := (\<lambda>op p. if op = OpWrite then Some ErrPermission else None)\<rparr>"

definition silent_listener_env :: env where
  "silent_listener_env =
     sample_env\<lparr>http_Post_callback := (\<lambda>n target body. if n = 0 then Some (Inr 500) else None)\<rparr>"

definition flaky_stat_env :: env where
  "flaky_stat_env =
     sample_env\<lparr>faults := (\<lambda>op p. if op = OpStat then Some (ErrOther ''input/output error'') else None)\<rparr>"

definition patient_env :: env where
  "patient_env = sample_env\<lparr>http_Post_callback := (\<lambda>n target body. Some (Inr 500))\<rparr>"

text \<open>Worlds in which the file exists but is empty, or holds the mistyped document.\<close>

definition empty_file_world :: world where
  "empty_file_world = \<lparr>files = [''./credentials.json'' \<mapsto> []], trace = [], logs = []\<rparr>"

definition mistyped_world :: world where
  "mistyped_world =
     \<lparr>files = [''./credentials.json'' \<mapsto> mistyped_document], trace = [], logs = []\<rparr>"

lemmas sample_defs = sample_env_def sample_Context_def fresh_world_def resumed_world_def
  sample_Decode_def sample_uuid_Parse_def sample_MarshalIndent_def sample_Unmarshal_def
  sample_body_def refused_body_def bad_id_body_def sample_response_def sample_config_def
  sample_document_def mistyped_document_def mistyped_config_def sample_uuid_def
  unreachable_env_def bad_id_env_def refused_env_def denied_env_def late_listener_env_def
  dead_listener_env_def patient_env_def empty_file_world_def mistyped_world_def
  readonly_env_def silent_listener_env_def flaky_stat_env_def serving_env_def

lemmas run_defs = RunPersistentQuickTunnel_def RequestNewQuickTunnel_def callbackOperation_def
  start_tunnel_def save_config_def load_config_def os_Stat_def os_Remove_def ioutil_ReadFile_def
  ioutil_WriteFile_def ctx_String_def ctx_IsSet_def ctx_Set_def Let_def

section \<open>Effects of the operations\<close>

lemma trace_emit [simp]: "trace (emit e w) = trace w @ [e]"
  by (simp add: emit_def)

lemma files_emit [simp]: "files (emit e w) = files w"
  by (simp add: emit_def)

lemma trace_log_Msg [simp]: "trace (log_Msg m w) = trace w"
  by (simp add: log_Msg_def)

lemma files_log_Msg [simp]: "files (log_Msg m w) = files w"
  by (simp add: log_Msg_def)

lemma trace_log_lines [simp]: "trace (foldl (\<lambda>w line. log_Msg line w) w ls) = trace w"
  by (induction ls arbitrary: w) simp_all

lemma files_log_lines [simp]: "files (foldl (\<lambda>w line. log_Msg line w) w ls) = files w"
  by (induction ls arbitrary: w) simp_all

lemma os_Stat_fst: "fst (os_Stat E p w) =
   (case faults E OpStat p of Some e \<Rightarrow> Some e
    | None \<Rightarrow> (case files w p of None \<Rightarrow> Some ErrNotExist | Some b \<Rightarrow> None))"
  by (simp add: os_Stat_def Let_def)

lemma os_Stat_log [simp]: "fst (os_Stat E p (log_Msg m w)) = fst (os_Stat E p w)"
  by (simp add: os_Stat_fst split: option.splits)

lemma os_Stat_snd: "snd (os_Stat E p w) = emit (EvStat p (fst (os_Stat E p w))) w"
  by (simp add: os_Stat_def Let_def)

lemma Request_fst_indep: "fst (RequestNewQuickTunnel E c w) = fst (RequestNewQuickTunnel E c w')"
  by (simp add: RequestNewQuickTunnel_def Let_def split: sum.splits)

lemma Request_trace:
  "trace (snd (RequestNewQuickTunnel E c w)) =
     trace w @ [EvPostTunnel (ctx_String c ''quick-service'' @ ''/tunnel'')
                  (http_Post_tunnel E (ctx_String c ''quick-service'' @ ''/tunnel''))]"
  by (simp add: RequestNewQuickTunnel_def Let_def split: sum.splits)

lemma Request_files: "files (snd (RequestNewQuickTunnel E c w)) = files w"
  by (simp add: RequestNewQuickTunnel_def Let_def split: sum.splits)

lemma callback_events_Nil [simp]: "callback_events E c config [] = []"
  by (simp add: callback_events_def map_filter_simps)

lemma callback_events_Cons:
  "callback_events E c config (n # ns) =
     (case callback_post E c config n of
        None \<Rightarrow> callback_events E c config ns
      | Some resp \<Rightarrow>
          EvPostCallback n (ctx_String c ''url'' @ ''/'' @ ctx_String c ''callback'') (URL config) resp
          # callback_events E c config ns)"
  by (simp add: callback_events_def map_filter_simps split: option.splits)

lemma stage_of_callbacks:
  "map stage_of (callback_events E c config ns)
     = replicate (length (callback_events E c config ns)) AnnounceCallback"
  by (induction ns) (simp_all add: callback_events_Cons split: option.splits)

lemma length_callback_events:
  "\<forall>i\<in>set ns. attempt E c config i \<noteq> None \<Longrightarrow>
   length (callback_events E c config ns) = length ns"
  by (induction ns) (auto simp: callback_events_Cons attempt_def split: option.splits)

lemma not_StartServer_callbacks [simp]:
  "EvStartServer ntc r \<notin> set (callback_events E c config ns)"
  by (induction ns) (simp_all add: callback_events_Cons split: option.splits)

lemma retried_iff:
  "retried E c config i = ((\<exists>err. attempt E c config i = Some (Some err)) \<and> NextBackOff E i \<noteq> Stop)"
  by (auto simp: retried_def split: option.splits)

lemma callbackOperation_eq:
  "callbackOperation E c config n w =
     map_option (\<lambda>r. (r, w\<lparr>trace := trace w @ callback_events E c config [n]\<rparr>))
       (attempt E c config n)"
  by (simp add: callbackOperation_def attempt_def callback_post_def callback_error_def
        callback_events_Cons emit_def Let_def split: sum.splits option.splits)

text \<open>What a returning loop has done: attempt \<open>n + k\<close> was the first to succeed or to be
  followed by \<open>Stop\<close>, all attempts before it were retried, and the trace has grown by
  the events of the attempts made.\<close>

lemma Retry_sound:
  assumes "Retry operation b n w = Some y"
  shows "operation = callbackOperation E c config \<and> b = NextBackOff E \<longrightarrow>
         (\<exists>k. attempt E c config (n + k) = Some (fst y)
           \<and> snd y = w\<lparr>trace := trace w @ callback_events E c config [n..<Suc (n + k)]\<rparr>
           \<and> (\<forall>i. n \<le> i \<and> i < n + k \<longrightarrow> retried E c config i)
           \<and> (fst y \<noteq> None \<longrightarrow> b (n + k) = Stop))"
  using assms
proof (induction rule: Retry.raw_induct[rotated 1, consumes 1, case_names step])
  case (step Retry' operation b n w y)
  show ?case
  proof
    assume op: "operation = callbackOperation E c config \<and> b = NextBackOff E"
    let ?w' = "w\<lparr>trace := trace w @ callback_events E c config [n]\<rparr>"
    have body: "(case attempt E c config n of
        None \<Rightarrow> None
      | Some None \<Rightarrow> Some (None, ?w')
      | Some (Some err) \<Rightarrow>
          (case b n of
             Stop \<Rightarrow> Some (Some err, ?w')
           | Wait d \<Rightarrow> Retry' operation b (Suc n) ?w')) = Some y"
      using step(2) op by (simp add: callbackOperation_eq split: option.splits)
    have one: "[n..<Suc (n + 0)] = [n]" by simp
    show "\<exists>k. attempt E c config (n + k) = Some (fst y)
           \<and> snd y = w\<lparr>trace := trace w @ callback_events E c config [n..<Suc (n + k)]\<rparr>
           \<and> (\<forall>i. n \<le> i \<and> i < n + k \<longrightarrow> retried E c config i)
           \<and> (fst y \<noteq> None \<longrightarrow> b (n + k) = Stop)"
    proof (cases "attempt E c config n")
      case None
      with body show ?thesis by simp
    next
      case (Some r)
      show ?thesis
      proof (cases r)
        case None
        with Some body have y: "y = (None, ?w')" by simp
        have "attempt E c config (n + 0) = Some (fst y)
           \<and> snd y = w\<lparr>trace := trace w @ callback_events E c config [n..<Suc (n + 0)]\<rparr>
           \<and> (\<forall>i. n \<le> i \<and> i < n + 0 \<longrightarrow> retried E c config i)
           \<and> (fst y \<noteq> None \<longrightarrow> b (n + 0) = Stop)"
          unfolding one using Some None y by auto
        then show ?thesis by (rule exI)
      next
        case err: (Some err)
        show ?thesis
        proof (cases "b n")
          case Stop
          with Some err body have y: "y = (Some err, ?w')" by simp
          have "attempt E c config (n + 0) = Some (fst y)
           \<and> snd y = w\<lparr>trace := trace w @ callback_events E c config [n..<Suc (n + 0)]\<rparr>
           \<and> (\<forall>i. n \<le> i \<and> i < n + 0 \<longrightarrow> retried E c config i)
           \<and> (fst y \<noteq> None \<longrightarrow> b (n + 0) = Stop)"
            unfolding one using Some err Stop y by auto
          then show ?thesis by (rule exI)
        next
          case (Wait d)
          with Some err body have rec: "Retry' operation b (Suc n) ?w' = Some y" by simp
          from step(1)[OF rec] op obtain k where k:
            "attempt E c config (Suc n + k) = Some (fst y)"
            "snd y = ?w'\<lparr>trace := trace ?w' @ callback_events E c config [Suc n..<Suc (Suc n + k)]\<rparr>"
            "\<forall>i. Suc n \<le> i \<and> i < Suc n + k \<longrightarrow> retried E c config i"
            "fst y \<noteq> None \<longrightarrow> b (Suc n + k) = Stop"
            by blast
          have post: "callback_post E c config n \<noteq> None"
            using Some by (auto simp: attempt_def)
          have a: "attempt E c config (n + Suc k) = Some (fst y)" using k(1) by simp
          have ub: "[n..<Suc (n + Suc k)] = n # [Suc n..<Suc (Suc n + k)]"
            by (simp add: upt_conv_Cons)
          have b: "snd y = w\<lparr>trace := trace w @ callback_events E c config [n..<Suc (n + Suc k)]\<rparr>"
            unfolding ub using k(2) post
            by (auto simp: callback_events_Cons split: option.splits)
          have here: "retried E c config n"
            using Some err Wait op by (simp add: retried_def)
          have c: "\<forall>i. n \<le> i \<and> i < n + Suc k \<longrightarrow> retried E c config i"
          proof (intro allI impI)
            fix i assume i: "n \<le> i \<and> i < n + Suc k"
            show "retried E c config i"
            proof (cases "i = n")
              case True
              then show ?thesis using here by simp
            next
              case False
              then show ?thesis using i k(3) by simp
            qed
          qed
          have d: "fst y \<noteq> None \<longrightarrow> b (n + Suc k) = Stop" using k(4) by simp
          from a b c d show ?thesis by blast
        qed
      qed
    qed
  qed
qed

text \<open>Termination: the first attempt that succeeds, or after which the policy stops,
  ends the loop.\<close>

lemma Retry_complete:
  assumes "\<forall>i. n \<le> i \<and> i < n + k \<longrightarrow> retried E c config i"
      and "attempt E c config (n + k) = Some r"
      and "r = None \<or> NextBackOff E (n + k) = Stop"
  shows "Retry (callbackOperation E c config) (NextBackOff E) n w =
           Some (r, w\<lparr>trace := trace w @ callback_events E c config [n..<Suc (n + k)]\<rparr>)"
  using assms
proof (induction k arbitrary: n w)
  case 0
  then show ?case
    by (subst Retry.simps)
       (auto simp: callbackOperation_eq split: option.splits backoff.splits)
next
  case (Suc k)
  let ?w' = "w\<lparr>trace := trace w @ callback_events E c config [n]\<rparr>"
  from Suc.prems(1) have n: "retried E c config n" by auto
  then obtain err where err: "attempt E c config n = Some (Some err)" "NextBackOff E n \<noteq> Stop"
    by (auto simp: retried_iff)
  have step: "Retry (callbackOperation E c config) (NextBackOff E) n w =
              Retry (callbackOperation E c config) (NextBackOff E) (Suc n) ?w'"
    using err by (subst Retry.simps) (auto simp: callbackOperation_eq split: backoff.splits)
  have IH: "Retry (callbackOperation E c config) (NextBackOff E) (Suc n) ?w' =
           Some (r, ?w'\<lparr>trace := trace ?w' @ callback_events E c config [Suc n..<Suc (Suc n + k)]\<rparr>)"
    using Suc.prems by (intro Suc.IH) auto
  have post: "callback_post E c config n \<noteq> None"
    using err by (auto simp: attempt_def)
  have ub: "[n..<Suc (n + Suc k)] = n # [Suc n..<Suc (Suc n + k)]"
    by (simp add: upt_conv_Cons)
  show ?case unfolding step IH ub using post
    by (auto simp: callback_events_Cons split: option.splits)
qed

text \<open>The loop never returns when every attempt is retried, and when a POST never
  returns after attempts that were all retried.\<close>

lemma Retry_diverges:
  assumes "\<forall>i. n \<le> i \<longrightarrow> retried E c config i"
  shows "Retry (callbackOperation E c config) (NextBackOff E) n w = None"
proof (rule ccontr)
  assume "Retry (callbackOperation E c config) (NextBackOff E) n w \<noteq> None"
  then obtain y where "Retry (callbackOperation E c config) (NextBackOff E) n w = Some y" by auto
  from Retry_sound[OF this, of E c config] obtain k where
     "attempt E c config (n + k) = Some (fst y)" "fst y \<noteq> None \<longrightarrow> NextBackOff E (n + k) = Stop"
    by blast
  moreover have "retried E c config (n + k)" using assms by simp
  ultimately show False by (auto simp: retried_iff)
qed

lemma Retry_blocked:
  assumes "\<forall>i. n \<le> i \<and> i < n + k \<longrightarrow> retried E c config i"
      and "attempt E c config (n + k) = None"
  shows "Retry (callbackOperation E c config) (NextBackOff E) n w = None"
proof (rule ccontr)
  assume "Retry (callbackOperation E c config) (NextBackOff E) n w \<noteq> None"
  then obtain y where "Retry (callbackOperation E c config) (NextBackOff E) n w = Some y" by auto
  from Retry_sound[OF this, of E c config] obtain j where j:
     "attempt E c config (n + j) = Some (fst y)"
     "\<forall>i. n \<le> i \<and> i < n + j \<longrightarrow> retried E c config i"
     "fst y \<noteq> None \<longrightarrow> NextBackOff E (n + j) = Stop"
    by blast
  consider "j < k" | "j = k" | "k < j" by linarith
  then show False
  proof cases
    case 1
    then have "retried E c config (n + j)" using assms(1) by simp
    with j(1,3) show False by (auto simp: retried_iff)
  next
    case 2
    with j(1) assms(2) show False by simp
  next
    case 3
    then have "retried E c config (n + k)" using j(2) by simp
    with assms(2) show False by (simp add: retried_iff)
  qed
qed

lemma new_events_append: "trace w' = trace w @ evs \<Longrightarrow> new_events w w' = evs"
  by (simp add: new_events_def)

lemma Request_snd_trace: "trace (snd (RequestNewQuickTunnel E c w)) = trace w @ [tunnel_event E c]"
  by (simp add: Request_trace tunnel_event_def Let_def)

lemma start_tunnel_nil:
  "start_tunnel E c version p None ex w =
     Some (Panicked ''invalid memory address or nil pointer dereference'', w)"
  by (simp add: start_tunnel_def)

lemma start_tunnel_serving:
  "connector_result E c version cfg = None \<Longrightarrow>
   start_tunnel E c version p (Some cfg) ex w = None"
  by (simp add: start_tunnel_def Let_def connector_result_def
        connector_config_def connector_context_def)

lemma start_tunnel_fresh:
  "connector_result E c version cfg = Some r \<Longrightarrow>
   start_tunnel E c version p (Some cfg) False w =
     Some (Returned (map_option ConnectorError r),
           emit (EvStartServer (connector_config cfg) r) (log_Msg (''Using: '' @ URL cfg) w))"
  by (simp add: start_tunnel_def Let_def connector_result_def
        connector_config_def connector_context_def)

lemma start_tunnel_ok:
  "connector_result E c version cfg = Some None \<Longrightarrow>
   start_tunnel E c version p (Some cfg) ex w =
     Some (Returned None,
           emit (EvStartServer (connector_config cfg) None) (log_Msg (''Using: '' @ URL cfg) w))"
  by (simp add: start_tunnel_def Let_def connector_result_def
        connector_config_def connector_context_def)

lemma os_Remove_fst: "fst (os_Remove E p w) =
   (case faults E OpRemove p of Some e \<Rightarrow> Some e
    | None \<Rightarrow> (case files w p of None \<Rightarrow> Some ErrNotExist | Some b \<Rightarrow> None))"
  by (simp add: os_Remove_def split: option.splits)

lemma os_Remove_trace: "trace (snd (os_Remove E p w)) = trace w @ [EvRemove p (fst (os_Remove E p w))]"
  by (simp add: os_Remove_def split: option.splits)

lemma os_Remove_files:
  "files (snd (os_Remove E p w)) = (if fst (os_Remove E p w) = None then (files w)(p := None) else files w)"
  by (simp add: os_Remove_def split: option.splits)

lemma start_tunnel_existing_failed:
  assumes "connector_result E c version cfg = Some (Some e)"
  shows "\<exists>out w'. start_tunnel E c version p (Some cfg) True w = Some (out, w')
           \<and> out = (case fst (os_Remove E p w) of
                       Some deleteErr \<Rightarrow> Returned (Some (OsError deleteErr))
                     | None \<Rightarrow>
                         Returned (Some (New ''Failed to start server. Restart to create new tunnel.'')))
           \<and> trace w' = trace w @ [EvStartServer (connector_config cfg) (Some e),
                                     EvRemove p (fst (os_Remove E p w))]
           \<and> files w' = (if fst (os_Remove E p w) = None then (files w)(p := None) else files w)"
  using assms
  by (simp add: start_tunnel_def Let_def connector_result_def
        connector_config_def connector_context_def os_Remove_def split: option.splits)

lemma provision_result_indep: "provision_result E c w = provision_result E c w'"
  unfolding provision_result_def by (rule Request_fst_indep)

lemma Retry_world:
  assumes "Retry (callbackOperation E c config) (NextBackOff E) n wa = Some y"
  shows "\<exists>k. (\<forall>i. n \<le> i \<and> i \<le> n + k \<longrightarrow> attempt E c config i \<noteq> None)
           \<and> (\<forall>w. Retry (callbackOperation E c config) (NextBackOff E) n w =
                 Some (fst y, w\<lparr>trace := trace w @ callback_events E c config [n..<Suc (n + k)]\<rparr>))"
proof -
  from Retry_sound[OF assms, of E c config] obtain k where k:
    "attempt E c config (n + k) = Some (fst y)"
    "\<forall>i. n \<le> i \<and> i < n + k \<longrightarrow> retried E c config i"
    "fst y \<noteq> None \<longrightarrow> NextBackOff E (n + k) = Stop"
    by blast
  have dec: "fst y = None \<or> NextBackOff E (n + k) = Stop"
    using k(3) by auto
  have ans: "\<forall>i. n \<le> i \<and> i \<le> n + k \<longrightarrow> attempt E c config i \<noteq> None"
  proof (intro allI impI)
    fix i assume i: "n \<le> i \<and> i \<le> n + k"
    show "attempt E c config i \<noteq> None"
    proof (cases "i = n + k")
      case True
      with k(1) show ?thesis by simp
    next
      case False
      with i k(2) have "retried E c config i" by simp
      then show ?thesis by (auto simp: retried_iff)
    qed
  qed
  have "\<forall>w. Retry (callbackOperation E c config) (NextBackOff E) n w =
            Some (fst y, w\<lparr>trace := trace w @ callback_events E c config [n..<Suc (n + k)]\<rparr>)"
    using Retry_complete[OF k(2) k(1) dec] by simp
  with ans show ?thesis by blast
qed

lemma announce_result_indep: "announce_result E c config w = announce_result E c config w'"
proof (cases "Retry (callbackOperation E c config) (NextBackOff E) 0 w")
  case None
  show ?thesis
  proof (cases "Retry (callbackOperation E c config) (NextBackOff E) 0 w'")
    case None2: None
    with None show ?thesis by (simp add: announce_result_def)
  next
    case (Some y)
    from Retry_world[OF Some] None show ?thesis by auto
  qed
next
  case (Some y)
  from Retry_world[OF Some] show ?thesis by (auto simp: announce_result_def)
qed

lemma announce_world:
  assumes "announce_result E c config w = Some r"
  shows "\<exists>k. length (callback_events E c config [0..<Suc k]) = Suc k
           \<and> (\<forall>v. Retry (callbackOperation E c config) (NextBackOff E) 0 v =
                 Some (r, v\<lparr>trace := trace v @ callback_events E c config [0..<Suc k]\<rparr>))"
proof -
  from assms obtain y where y: "Retry (callbackOperation E c config) (NextBackOff E) 0 w = Some y"
      and r: "fst y = r"
    by (auto simp: announce_result_def)
  from Retry_world[OF y] obtain k where k:
    "\<forall>i. 0 \<le> i \<and> i \<le> 0 + k \<longrightarrow> attempt E c config i \<noteq> None"
    "\<forall>v. Retry (callbackOperation E c config) (NextBackOff E) 0 v =
            Some (fst y, v\<lparr>trace := trace v @ callback_events E c config [0..<Suc (0 + k)]\<rparr>)"
    by blast
  have "length (callback_events E c config [0..<Suc k]) = length [0..<Suc k]"
    using k(1) by (intro length_callback_events) auto
  with k(2) r show ?thesis by auto
qed

lemma run_fresh_unfold:
  assumes "fst (os_Stat E (ctx_String c ''credentials'') w) = Some ErrNotExist"
  shows "RunPersistentQuickTunnel E c version w =
     (let configFile = ctx_String c ''credentials'';
          w2 = emit (stat_event E c w) (log_Msg (''Using config file: '' @ configFile) w);
          w3 = snd (RequestNewQuickTunnel E c w2)
      in case provision_result E c w of
           Inl err \<Rightarrow> Some (Returned (Some err), log_Msg (Error err) w3)
         | Inr config \<Rightarrow>
             (case Retry (callbackOperation E c config) (NextBackOff E) 0
                     (log_Msg ''Notifying server of changed tunnel'' w3) of
                None \<Rightarrow> None
              | Some (Some err, w4) \<Rightarrow> Some (Returned (Some err), log_Msg (Error err) w4)
              | Some (None, w4) \<Rightarrow>
                  (case save_config E configFile config w4 of
                     (Some err, w5) \<Rightarrow>
                       Some (Returned (Some (OsError err)), log_Msg (Error (OsError err)) w5)
                   | (None, w5) \<Rightarrow>
                       start_tunnel E c version configFile (Some config) False w5)))"
proof -
  let ?p = "ctx_String c ''credentials''"
  let ?w1 = "log_Msg (''Using config file: '' @ ?p) w"
  let ?w2 = "emit (stat_event E c w) ?w1"
  have st: "os_Stat E ?p ?w1 = (Some ErrNotExist, ?w2)"
    using assms by (simp add: prod_eq_iff os_Stat_snd stat_event_def)
  have pr: "fst (RequestNewQuickTunnel E c ?w2) = provision_result E c w"
    unfolding provision_result_def by (rule Request_fst_indep)
  show ?thesis
    unfolding RunPersistentQuickTunnel_def Let_def st
    by (simp only: case_prod_beta[of _ "RequestNewQuickTunnel E c ?w2"] pr prod.case simp_thms if_True)
qed


lemma save_config_failed:
  "faults E OpWrite p = Some err \<Longrightarrow>
   save_config E p config w =
     (Some err,
      emit (EvWriteFile p (fst (MarshalIndent E config)) (Some err))
        (case partial_write E p of
           None \<Rightarrow> w
         | Some n \<Rightarrow> w\<lparr>files := (files w)(p \<mapsto> take n (fst (MarshalIndent E config)))\<rparr>))"
  by (simp add: save_config_def ioutil_WriteFile_def Let_def)

lemma save_config_ok:
  "faults E OpWrite p = None \<Longrightarrow>
   save_config E p config w =
     (None, emit (EvWriteFile p (fst (MarshalIndent E config)) None)
              (w\<lparr>files := (files w)(p \<mapsto> fst (MarshalIndent E config))\<rparr>))"
  by (simp add: save_config_def ioutil_WriteFile_def Let_def)

lemma stage_of_named [simp]:
  "stage_of (stat_event E c w) = Init"
  "stage_of (tunnel_event E c) = Provision"
  "stage_of (read_event E c w) = Load"
  by (simp_all add: stat_event_def tunnel_event_def read_event_def Let_def)

lemma not_StartServer [simp]:
  "EvStartServer ntc r \<noteq> stat_event E c w"
  "EvStartServer ntc r \<noteq> tunnel_event E c"
  "EvStartServer ntc r \<noteq> read_event E c w"
  by (simp_all add: stat_event_def tunnel_event_def read_event_def Let_def)

text \<open>The four ways in which a run on the fresh path returns.\<close>

lemma fresh_run_cases:
  assumes fresh: "fst (os_Stat E (ctx_String c ''credentials'') w) = Some ErrNotExist"
      and run: "RunPersistentQuickTunnel E c version w = Some (out, w')"
  obtains
    (provision_failed) err where
      "provision_result E c w = Inl err"
      "out = Returned (Some err)"
      "new_events w w' = [stat_event E c w, tunnel_event E c]"
      "files w' = files w"
  | (announce_failed) config err k where
      "provision_result E c w = Inr config"
      "announce_result E c config w = Some (Some err)"
      "out = Returned (Some err)"
      "length (callback_events E c config [0..<Suc k]) = Suc k"
      "new_events w w' =
         [stat_event E c w, tunnel_event E c] @ callback_events E c config [0..<Suc k]"
      "files w' = files w"
  | (persist_failed) config k err where
      "provision_result E c w = Inr config"
      "announce_result E c config w = Some None"
      "faults E OpWrite (ctx_String c ''credentials'') = Some err"
      "out = Returned (Some (OsError err))"
      "length (callback_events E c config [0..<Suc k]) = Suc k"
      "new_events w w' =
         [stat_event E c w, tunnel_event E c] @ callback_events E c config [0..<Suc k]
         @ [EvWriteFile (ctx_String c ''credentials'') (fst (MarshalIndent E config)) (Some err)]"
      "files w' =
         (case partial_write E (ctx_String c ''credentials'') of
            None \<Rightarrow> files w
          | Some n \<Rightarrow>
              (files w)(ctx_String c ''credentials'' \<mapsto> take n (fst (MarshalIndent E config))))"
  | (connected) config k r where
      "provision_result E c w = Inr config"
      "announce_result E c config w = Some None"
      "faults E OpWrite (ctx_String c ''credentials'') = None"
      "connector_result E c version config = Some r"
      "out = Returned (map_option ConnectorError r)"
      "length (callback_events E c config [0..<Suc k]) = Suc k"
      "new_events w w' =
         [stat_event E c w, tunnel_event E c] @ callback_events E c config [0..<Suc k]
         @ [EvWriteFile (ctx_String c ''credentials'') (fst (MarshalIndent E config)) None,
            EvStartServer (connector_config config) r]"
      "files w' = (files w)(ctx_String c ''credentials'' \<mapsto> fst (MarshalIndent E config))"
proof -
  define p where "p = ctx_String c ''credentials''"
  define w2 where "w2 = emit (stat_event E c w) (log_Msg (''Using config file: '' @ p) w)"
  define w3 where "w3 = snd (RequestNewQuickTunnel E c w2)"
  define w3' where "w3' = log_Msg ''Notifying server of changed tunnel'' w3"
  have tr3: "trace w3 = trace w @ [stat_event E c w, tunnel_event E c]"
    by (simp add: w3_def w2_def Request_snd_trace)
  have fl3: "files w3 = files w"
    by (simp add: w3_def w2_def Request_files)
  note U = run[unfolded run_fresh_unfold[OF fresh] Let_def, folded p_def, folded w2_def,
               folded w3_def, folded w3'_def]
  show thesis
  proof (cases "provision_result E c w")
    case (Inl err)
    with U have "out = Returned (Some err)" "w' = log_Msg (Error err) w3"
      by simp_all
    with Inl show thesis
      by (intro provision_failed[of err]) (simp_all add: new_events_append tr3 fl3)
  next
    case (Inr config)
    with U obtain y where y: "Retry (callbackOperation E c config) (NextBackOff E) 0 w3' = Some y"
      by (cases "Retry (callbackOperation E c config) (NextBackOff E) 0 w3'") simp_all
    obtain r w4 where yp: "y = (r, w4)" by (cases y)
    have ann: "announce_result E c config w = Some r"
      using y yp announce_result_indep[of E c config w w3'] by (simp add: announce_result_def)
    from announce_world[OF ann] obtain k where
      len: "length (callback_events E c config [0..<Suc k]) = Suc k"
      and k: "Retry (callbackOperation E c config) (NextBackOff E) 0 w3' =
            Some (r, w3'\<lparr>trace := trace w3' @ callback_events E c config [0..<Suc k]\<rparr>)"
      by blast
    have w4: "w4 = w3'\<lparr>trace := trace w3' @ callback_events E c config [0..<Suc k]\<rparr>"
      using k y yp by simp
    have tr4: "trace w4 = trace w @ [stat_event E c w, tunnel_event E c]
                 @ callback_events E c config [0..<Suc k]"
      by (simp add: w4 w3'_def tr3)
    have fl4: "files w4 = files w"
      by (simp add: w4 w3'_def fl3)
    show thesis
    proof (cases r)
      case (Some err)
      with U Inr y yp have "out = Returned (Some err)" "w' = log_Msg (Error err) w4"
        by simp_all
      with Inr ann Some len show thesis
        by (intro announce_failed[of config err k]) (simp_all add: new_events_append tr4 fl4)
    next
      case None
      show thesis
      proof (cases "faults E OpWrite p")
        case (Some err)
        with U Inr y yp None
        have "out = Returned (Some (OsError err))"
             "w' = log_Msg (Error (OsError err))
                     (emit (EvWriteFile p (fst (MarshalIndent E config)) (Some err))
                        (case partial_write E p of
                           None \<Rightarrow> w4
                         | Some n \<Rightarrow>
                             w4\<lparr>files := (files w4)(p \<mapsto> take n (fst (MarshalIndent E config)))\<rparr>))"
          by (simp_all add: save_config_failed)
        with Inr ann None Some len show thesis
          by (intro persist_failed[of config err k])
             (simp_all add: new_events_append tr4 fl4 p_def split: option.splits)
      next
        case wr: None
        from U Inr y yp None wr
        have st: "start_tunnel E c version p (Some config) False
                    (emit (EvWriteFile p (fst (MarshalIndent E config)) None)
                       (w4\<lparr>files := (files w4)(p \<mapsto> fst (MarshalIndent E config))\<rparr>))
                  = Some (out, w')"
          by (simp add: save_config_ok)
        then obtain r where cr: "connector_result E c version config = Some r"
          by (cases "connector_result E c version config") (simp_all add: start_tunnel_serving)
        from st
        have "out = Returned (map_option ConnectorError r)"
             "w' = emit (EvStartServer (connector_config config) r)
                     (log_Msg (''Using: '' @ URL config)
                        (emit (EvWriteFile p (fst (MarshalIndent E config)) None)
                           (w4\<lparr>files := (files w4)(p \<mapsto> fst (MarshalIndent E config))\<rparr>)))"
          by (simp_all add: start_tunnel_fresh[OF cr])
        with Inr ann None wr len cr show thesis
          by (intro connected[of config r k])
             (simp_all add: new_events_append tr4 fl4 p_def)
      qed
    qed
  qed
qed

text \<open>A run on the fresh path returns unless the announcement or the connector never
  does.\<close>

lemma fresh_run_returns:
  assumes fresh: "fst (os_Stat E (ctx_String c ''credentials'') w) = Some ErrNotExist"
  shows "(RunPersistentQuickTunnel E c version w = None) =
           (\<exists>config. provision_result E c w = Inr config
              \<and> (announce_result E c config w = None
                 \<or> announce_result E c config w = Some None
                   \<and> faults E OpWrite (ctx_String c ''credentials'') = None
                   \<and> connector_result E c version config = None))"
proof (cases "provision_result E c w")
  case (Inl err)
  then show ?thesis
    unfolding run_fresh_unfold[OF fresh] Let_def by simp
next
  case (Inr config)
  let ?w3 = "log_Msg ''Notifying server of changed tunnel''
               (snd (RequestNewQuickTunnel E c
                  (emit (stat_event E c w)
                     (log_Msg (''Using config file: '' @ ctx_String c ''credentials'') w))))"
  have ai: "announce_result E c config w = announce_result E c config ?w3"
    by (rule announce_result_indep)
  show ?thesis
  proof (cases "Retry (callbackOperation E c config) (NextBackOff E) 0 ?w3")
    case None
    then have "announce_result E c config w = None"
      unfolding ai by (simp add: announce_result_def)
    with Inr None show ?thesis
      unfolding run_fresh_unfold[OF fresh] Let_def by simp
  next
    case (Some y)
    obtain r w4 where y: "y = (r, w4)" by (cases y)
    have an: "announce_result E c config w = Some r"
      unfolding ai using Some y by (simp add: announce_result_def)
    show ?thesis
    proof (cases r)
      case failed: (Some err)
      have "RunPersistentQuickTunnel E c version w \<noteq> None"
        unfolding run_fresh_unfold[OF fresh] Let_def using Inr Some y failed by simp
      with Inr an failed show ?thesis by simp
    next
      case None
      show ?thesis
      proof (cases "faults E OpWrite (ctx_String c ''credentials'')")
        case wf: (Some e)
        have "RunPersistentQuickTunnel E c version w \<noteq> None"
          unfolding run_fresh_unfold[OF fresh] Let_def using Inr Some y None wf
          by (simp add: save_config_failed)
        with Inr an None wf show ?thesis by simp
      next
        case wr: None
        show ?thesis
        proof (cases "connector_result E c version config")
          case cn: None
          have "RunPersistentQuickTunnel E c version w = None"
            unfolding run_fresh_unfold[OF fresh] Let_def using Inr Some y None wr
            by (simp add: save_config_ok start_tunnel_serving[OF cn])
          with Inr an None wr cn show ?thesis by simp
        next
          case cs: (Some res)
          have "RunPersistentQuickTunnel E c version w \<noteq> None"
            unfolding run_fresh_unfold[OF fresh] Let_def using Inr Some y None wr
            by (simp add: save_config_ok start_tunnel_fresh[OF cs])
          with Inr an None wr cs show ?thesis by simp
        qed
      qed
    qed
  qed
qed

text \<open>What a run on the fresh path does, from the results of its stages: these facts do
  not assume that the run returns.\<close>

lemma fresh_run_total:
  assumes fresh: "fst (os_Stat E (ctx_String c ''credentials'') w) = Some ErrNotExist"
  shows "provision_result E c w = Inl err \<Longrightarrow>
           \<exists>w'. RunPersistentQuickTunnel E c version w = Some (Returned (Some err), w')
              \<and> new_events w w' = [stat_event E c w, tunnel_event E c]
              \<and> files w' = files w"
    and "provision_result E c w = Inr config \<Longrightarrow> announce_result E c config w = None \<Longrightarrow>
           RunPersistentQuickTunnel E c version w = None"
    and "provision_result E c w = Inr config \<Longrightarrow> announce_result E c config w = Some (Some err) \<Longrightarrow>
           \<exists>w' k. RunPersistentQuickTunnel E c version w = Some (Returned (Some err), w')
              \<and> length (callback_events E c config [0..<Suc k]) = Suc k
              \<and> new_events w w' =
                   [stat_event E c w, tunnel_event E c] @ callback_events E c config [0..<Suc k]
              \<and> files w' = files w"
    and "provision_result E c w = Inr config \<Longrightarrow> announce_result E c config w = Some None \<Longrightarrow>
         faults E OpWrite (ctx_String c ''credentials'') = Some e \<Longrightarrow>
           \<exists>w' k. RunPersistentQuickTunnel E c version w = Some (Returned (Some (OsError e)), w')
              \<and> length (callback_events E c config [0..<Suc k]) = Suc k
              \<and> new_events w w' =
                   [stat_event E c w, tunnel_event E c] @ callback_events E c config [0..<Suc k]
                   @ [EvWriteFile (ctx_String c ''credentials'') (fst (MarshalIndent E config)) (Some e)]
              \<and> files w' =
                   (case partial_write E (ctx_String c ''credentials'') of
                      None \<Rightarrow> files w
                    | Some n \<Rightarrow>
                        (files w)(ctx_String c ''credentials''
                                    \<mapsto> take n (fst (MarshalIndent E config))))"
    and "provision_result E c w = Inr config \<Longrightarrow> announce_result E c config w = Some None \<Longrightarrow>
         faults E OpWrite (ctx_String c ''credentials'') = None \<Longrightarrow>
         connector_result E c version config = Some r \<Longrightarrow>
           \<exists>w' k. RunPersistentQuickTunnel E c version w
                     = Some (Returned (map_option ConnectorError r), w')
              \<and> length (callback_events E c config [0..<Suc k]) = Suc k
              \<and> new_events w w' =
                   [stat_event E c w, tunnel_event E c] @ callback_events E c config [0..<Suc k]
                   @ [EvWriteFile (ctx_String c ''credentials'') (fst (MarshalIndent E config)) None,
                      EvStartServer (connector_config config) r]
              \<and> files w' = (files w)(ctx_String c ''credentials'' \<mapsto> fst (MarshalIndent E config))"
    and "provision_result E c w = Inr config \<Longrightarrow> announce_result E c config w = Some None \<Longrightarrow>
         faults E OpWrite (ctx_String c ''credentials'') = None \<Longrightarrow>
         connector_result E c version config = None \<Longrightarrow>
           RunPersistentQuickTunnel E c version w = None"
proof -
  show "RunPersistentQuickTunnel E c version w = None"
    if "provision_result E c w = Inr config" "announce_result E c config w = None"
    using that fresh_run_returns[OF fresh] by blast
  show "RunPersistentQuickTunnel E c version w = None"
    if "provision_result E c w = Inr config" "announce_result E c config w = Some None"
       "faults E OpWrite (ctx_String c ''credentials'') = None"
       "connector_result E c version config = None"
    using that fresh_run_returns[OF fresh] by blast
  have ret: "\<exists>out w'. RunPersistentQuickTunnel E c version w = Some (out, w')"
    if "\<not> (\<exists>config. provision_result E c w = Inr config
              \<and> (announce_result E c config w = None
                 \<or> announce_result E c config w = Some None
                   \<and> faults E OpWrite (ctx_String c ''credentials'') = None
                   \<and> connector_result E c version config = None))"
    using that fresh_run_returns[OF fresh, of version] by (metis not_None_eq surj_pair)
  show "\<exists>w'. RunPersistentQuickTunnel E c version w = Some (Returned (Some err), w')
              \<and> new_events w w' = [stat_event E c w, tunnel_event E c]
              \<and> files w' = files w"
    if pr: "provision_result E c w = Inl err"
  proof -
    from ret pr obtain out w' where run: "RunPersistentQuickTunnel E c version w = Some (out, w')"
      by auto
    from fresh run show ?thesis
      by (cases rule: fresh_run_cases) (use pr run in auto)
  qed
  show "\<exists>w' k. RunPersistentQuickTunnel E c version w = Some (Returned (Some err), w')
              \<and> length (callback_events E c config [0..<Suc k]) = Suc k
              \<and> new_events w w' =
                   [stat_event E c w, tunnel_event E c] @ callback_events E c config [0..<Suc k]
              \<and> files w' = files w"
    if pr: "provision_result E c w = Inr config" and an: "announce_result E c config w = Some (Some err)"
  proof -
    from ret pr an obtain out w' where run: "RunPersistentQuickTunnel E c version w = Some (out, w')"
      by auto
    from fresh run show ?thesis
      by (cases rule: fresh_run_cases) (use pr an run in auto)
  qed
  show "\<exists>w' k. RunPersistentQuickTunnel E c version w = Some (Returned (Some (OsError e)), w')
              \<and> length (callback_events E c config [0..<Suc k]) = Suc k
              \<and> new_events w w' =
                   [stat_event E c w, tunnel_event E c] @ callback_events E c config [0..<Suc k]
                   @ [EvWriteFile (ctx_String c ''credentials'') (fst (MarshalIndent E config)) (Some e)]
              \<and> files w' =
                   (case partial_write E (ctx_String c ''credentials'') of
                      None \<Rightarrow> files w
                    | Some n \<Rightarrow>
                        (files w)(ctx_String c ''credentials''
                                    \<mapsto> take n (fst (MarshalIndent E config))))"
    if pr: "provision_result E c w = Inr config" and an: "announce_result E c config w = Some None"
      and wr: "faults E OpWrite (ctx_String c ''credentials'') = Some e"
  proof -
    from ret pr an wr obtain out w'
      where run: "RunPersistentQuickTunnel E c version w = Some (out, w')"
      by auto
    from fresh run show ?thesis
      by (cases rule: fresh_run_cases) (use pr an wr run in auto)
  qed
  show "\<exists>w' k. RunPersistentQuickTunnel E c version w
                     = Some (Returned (map_option ConnectorError r), w')
              \<and> length (callback_events E c config [0..<Suc k]) = Suc k
              \<and> new_events w w' =
                   [stat_event E c w, tunnel_event E c] @ callback_events E c config [0..<Suc k]
                   @ [EvWriteFile (ctx_String c ''credentials'') (fst (MarshalIndent E config)) None,
                      EvStartServer (connector_config config) r]
              \<and> files w' = (files w)(ctx_String c ''credentials'' \<mapsto> fst (MarshalIndent E config))"
    if pr: "provision_result E c w = Inr config" and an: "announce_result E c config w = Some None"
      and wr: "faults E OpWrite (ctx_String c ''credentials'') = None"
      and cr: "connector_result E c version config = Some r"
  proof -
    from ret pr an wr cr obtain out w'
      where run: "RunPersistentQuickTunnel E c version w = Some (out, w')"
      by auto
    from fresh run show ?thesis
      by (cases rule: fresh_run_cases) (use pr an wr cr run in auto)
  qed
qed

lemma ReadFile_fst_files:
  "files w1 = files w \<Longrightarrow> fst (ioutil_ReadFile E p w1) = fst (ioutil_ReadFile E p w)"
  by (simp add: ioutil_ReadFile_def Let_def split: option.splits)

lemma ReadFile_snd:
  "snd (ioutil_ReadFile E p w) = emit (EvReadFile p (snd (fst (ioutil_ReadFile E p w)))) w"
  by (simp add: ioutil_ReadFile_def Let_def)

lemma load_config_fst_files:
  "files w1 = files w \<Longrightarrow> fst (load_config E p w1) = fst (load_config E p w)"
  using ReadFile_fst_files[of w1 w E p]
  by (simp add: load_config_def case_prod_beta)

lemma load_config_snd:
  "snd (load_config E p w) = emit (EvReadFile p (snd (fst (ioutil_ReadFile E p w)))) w"
  by (simp add: load_config_def case_prod_beta ReadFile_snd)

lemma os_Remove_fst_files:
  "files w1 = files w \<Longrightarrow> fst (os_Remove E p w1) = fst (os_Remove E p w)"
  by (simp add: os_Remove_fst split: option.splits)

lemma run_resumed_unfold:
  assumes "fst (os_Stat E (ctx_String c ''credentials'') w) \<noteq> Some ErrNotExist"
  shows "RunPersistentQuickTunnel E c version w =
     start_tunnel E c version (ctx_String c ''credentials'') (loaded_config E c w) True
       (emit (read_event E c w)
          (emit (stat_event E c w)
             (log_Msg (''Using config file: '' @ ctx_String c ''credentials'') w)))"
proof -
  let ?p = "ctx_String c ''credentials''"
  let ?w1 = "log_Msg (''Using config file: '' @ ?p) w"
  let ?w2 = "emit (stat_event E c w) ?w1"
  have st: "os_Stat E ?p ?w1 = (fst (os_Stat E ?p w), ?w2)"
    by (simp add: prod_eq_iff os_Stat_snd stat_event_def)
  have f2: "files ?w2 = files w" by simp
  have ld: "load_config E ?p ?w2 = (loaded_config E c w, emit (read_event E c w) ?w2)"
    unfolding loaded_config_def read_event_def prod_eq_iff fst_conv snd_conv
    using load_config_fst_files[OF f2, of E ?p] load_config_snd[of E ?p ?w2]
          ReadFile_fst_files[OF f2, of E ?p]
    by simp
  show ?thesis
    unfolding RunPersistentQuickTunnel_def Let_def st
    using assms by (simp only: ld prod.case if_False)
qed

text \<open>What a run on the resumed path does, from what the load gives and the connector
  returns: these facts do not assume that the run returns.\<close>

lemma resumed_run_total:
  assumes resumed: "fst (os_Stat E (ctx_String c ''credentials'') w) \<noteq> Some ErrNotExist"
  shows "loaded_config E c w = None \<Longrightarrow>
           \<exists>w'. RunPersistentQuickTunnel E c version w
                   = Some (Panicked ''invalid memory address or nil pointer dereference'', w')
              \<and> new_events w w' = [stat_event E c w, read_event E c w]
              \<and> files w' = files w"
    and "loaded_config E c w = Some cfg \<Longrightarrow> connector_result E c version cfg = None \<Longrightarrow>
           RunPersistentQuickTunnel E c version w = None"
    and "loaded_config E c w = Some cfg \<Longrightarrow> connector_result E c version cfg = Some None \<Longrightarrow>
           \<exists>w'. RunPersistentQuickTunnel E c version w = Some (Returned None, w')
              \<and> new_events w w' = [stat_event E c w, read_event E c w,
                                    EvStartServer (connector_config cfg) None]
              \<and> files w' = files w"
    and "loaded_config E c w = Some cfg \<Longrightarrow> connector_result E c version cfg = Some (Some e) \<Longrightarrow>
           \<exists>w'. RunPersistentQuickTunnel E c version w
                   = Some (case fst (os_Remove E (ctx_String c ''credentials'') w) of
                             Some deleteErr \<Rightarrow> Returned (Some (OsError deleteErr))
                           | None \<Rightarrow>
                               Returned (Some (New ''Failed to start server. Restart to create new tunnel.'')),
                           w')
              \<and> new_events w w' =
                   [stat_event E c w, read_event E c w, EvStartServer (connector_config cfg) (Some e),
                    EvRemove (ctx_String c ''credentials'')
                      (fst (os_Remove E (ctx_String c ''credentials'') w))]
              \<and> files w' =
                   (if fst (os_Remove E (ctx_String c ''credentials'') w) = None
                    then (files w)(ctx_String c ''credentials'' := None) else files w)"
proof -
  define p where "p = ctx_String c ''credentials''"
  define w3 where "w3 = emit (read_event E c w) (emit (stat_event E c w)
                          (log_Msg (''Using config file: '' @ p) w))"
  have tr3: "trace w3 = trace w @ [stat_event E c w, read_event E c w]"
    by (simp add: w3_def)
  have fl3: "files w3 = files w"
    by (simp add: w3_def)
  note U = run_resumed_unfold[OF resumed, of version, folded p_def, folded w3_def]
  show "\<exists>w'. RunPersistentQuickTunnel E c version w
                   = Some (Panicked ''invalid memory address or nil pointer dereference'', w')
              \<and> new_events w w' = [stat_event E c w, read_event E c w]
              \<and> files w' = files w"
    if "loaded_config E c w = None"
    unfolding U using that by (simp add: start_tunnel_nil new_events_append tr3 fl3)
  show "RunPersistentQuickTunnel E c version w = None"
    if "loaded_config E c w = Some cfg" "connector_result E c version cfg = None"
    unfolding U using that by (simp add: start_tunnel_serving)
  show "\<exists>w'. RunPersistentQuickTunnel E c version w = Some (Returned None, w')
              \<and> new_events w w' = [stat_event E c w, read_event E c w,
                                    EvStartServer (connector_config cfg) None]
              \<and> files w' = files w"
    if "loaded_config E c w = Some cfg" "connector_result E c version cfg = Some None"
    unfolding U using that by (simp add: start_tunnel_ok new_events_append tr3 fl3)
  show "\<exists>w'. RunPersistentQuickTunnel E c version w
                   = Some (case fst (os_Remove E (ctx_String c ''credentials'') w) of
                             Some deleteErr \<Rightarrow> Returned (Some (OsError deleteErr))
                           | None \<Rightarrow>
                               Returned (Some (New ''Failed to start server. Restart to create new tunnel.'')),
                           w')
              \<and> new_events w w' =
                   [stat_event E c w, read_event E c w, EvStartServer (connector_config cfg) (Some e),
                    EvRemove (ctx_String c ''credentials'')
                      (fst (os_Remove E (ctx_String c ''credentials'') w))]
              \<and> files w' =
                   (if fst (os_Remove E (ctx_String c ''credentials'') w) = None
                    then (files w)(ctx_String c ''credentials'' := None) else files w)"
    if ld: "loaded_config E c w = Some cfg" and cr: "connector_result E c version cfg = Some (Some e)"
  proof -
    have rm: "fst (os_Remove E p w3) = fst (os_Remove E p w)"
      using fl3 by (rule os_Remove_fst_files)
    from start_tunnel_existing_failed[OF cr, of p w3]
    obtain out w' where s: "start_tunnel E c version p (Some cfg) True w3 = Some (out, w')"
      "out = (case fst (os_Remove E p w3) of
                Some deleteErr \<Rightarrow> Returned (Some (OsError deleteErr))
              | None \<Rightarrow> Returned (Some (New ''Failed to start server. Restart to create new tunnel.'')))"
      "trace w' = trace w3 @ [EvStartServer (connector_config cfg) (Some e),
                              EvRemove p (fst (os_Remove E p w3))]"
      "files w' = (if fst (os_Remove E p w3) = None then (files w3)(p := None) else files w3)"
      by blast
    show ?thesis
      unfolding U ld s(1) using s(2,3,4)
      by (simp add: rm new_events_append tr3 fl3 flip: p_def)
  qed
qed


lemma sample_path: "ctx_String sample_Context ''credentials'' = ''./credentials.json''"
  by (simp add: run_defs sample_defs)


lemma stages_events: "new_events w w' = evs \<Longrightarrow> stages w w' = map stage_of evs"
  by (simp add: stages_def)

section \<open>The claims\<close>

text \<open>
  \<^bold>\<open>C1\<close> (URL normalisation). The claim: when the hostname of the provisioning response
  has no scheme, the \<open>URL\<close> of the returned config is the hostname with \<open>https://\<close>
  put in front once, and that value is persisted and handed to the connector. The code
  computes this value in the local \<open>url\<close> and prints it in the banner, but builds the
  config from \<open>data.Result.Hostname\<close>: for the hostname \<open>abc.trycloudflare.com\<close> the
  returned \<open>URL\<close>, the body of the callback POST, the persisted document and the
  connector's \<open>QuickTunnelUrl\<close> are all \<open>abc.trycloudflare.com\<close>, while the banner
  shows \<open>https://abc.trycloudflare.com\<close>.
\<close>

theorem stored_url_is_raw_hostname:
  "fst (RequestNewQuickTunnel sample_env sample_Context fresh_world) = Inr sample_config
   \<and> URL sample_config = ''abc.trycloudflare.com''
   \<and> logs (snd (RequestNewQuickTunnel sample_env sample_Context fresh_world)) ! 4
       = ''|  https://abc.trycloudflare.com'' @ replicate 61 (CHR '' '') @ ''|''
   \<and> map_option (trace \<circ> snd)
       (RunPersistentQuickTunnel sample_env sample_Context ''DEV'' fresh_world)
     = Some [EvStat ''./credentials.json'' (Some ErrNotExist),
             EvPostTunnel ''https://api.trycloudflare.com/tunnel'' (Inr sample_body),
             EvPostCallback 0 ''http://localhost:8080/callback'' ''abc.trycloudflare.com'' (Inr 200),
             EvWriteFile ''./credentials.json'' sample_document None,
             EvStartServer \<lparr>NamedCredentials = Credentials sample_config,
                             QuickTunnelUrl = ''abc.trycloudflare.com''\<rparr> None]"
proof -
  have a: "fst (RequestNewQuickTunnel sample_env sample_Context fresh_world) = Inr sample_config"
    by (simp add: run_defs sample_defs)
  have b: "URL sample_config = ''abc.trycloudflare.com''"
    by (simp add: sample_config_def)
  have c: "logs (snd (RequestNewQuickTunnel sample_env sample_Context fresh_world)) ! 4
       = ''|  https://abc.trycloudflare.com'' @ replicate 61 (CHR '' '') @ ''|''"
    by (simp add: run_defs sample_defs emit_def log_Msg_def AsciiBox_def eval_nat_numeral)
  have d: "map_option (trace \<circ> snd)
       (RunPersistentQuickTunnel sample_env sample_Context ''DEV'' fresh_world)
     = Some [EvStat ''./credentials.json'' (Some ErrNotExist),
             EvPostTunnel ''https://api.trycloudflare.com/tunnel'' (Inr sample_body),
             EvPostCallback 0 ''http://localhost:8080/callback'' ''abc.trycloudflare.com'' (Inr 200),
             EvWriteFile ''./credentials.json'' sample_document None,
             EvStartServer \<lparr>NamedCredentials = Credentials sample_config,
                             QuickTunnelUrl = ''abc.trycloudflare.com''\<rparr> None]"
    by (simp add: run_defs sample_defs Retry.simps)
  from a b c d show ?thesis by blast
qed

text \<open>
  \<^bold>\<open>C2\<close> (load failure). The claim: on the resumed path a failure to read or decode the
  file is returned as an error, and the run never goes on with a partly filled or absent
  config. The code drops both errors. With an empty file \<open>json.Unmarshal\<close> leaves
  \<open>config\<close> \<open>nil\<close> and the read of \<open>config.URL\<close> panics; with a document whose
  \<open>Credentials\<close> member is mistyped the connector is started with the partly filled
  config and the run returns \<open>nil\<close>.
\<close>

theorem load_failure_not_surfaced:
  "RunPersistentQuickTunnel sample_env sample_Context ''DEV'' empty_file_world
     = Some (Panicked ''invalid memory address or nil pointer dereference'',
             empty_file_world\<lparr>trace := [EvStat ''./credentials.json'' None,
                                        EvReadFile ''./credentials.json'' None],
                               logs := [''Using config file: ./credentials.json'']\<rparr>)
   \<and> Unmarshal sample_env mistyped_document
       = (Some mistyped_config,
          Some ''json: cannot unmarshal string into Go struct field QuickTunnelConfig.Credentials of type connection.Credentials'')
   \<and> map_option fst (RunPersistentQuickTunnel sample_env sample_Context ''DEV'' mistyped_world)
       = Some (Returned None)
   \<and> map_option (trace \<circ> snd)
         (RunPersistentQuickTunnel sample_env sample_Context ''DEV'' mistyped_world)
       = Some [EvStat ''./credentials.json'' None,
               EvReadFile ''./credentials.json'' None,
               EvStartServer \<lparr>NamedCredentials = Credentials mistyped_config,
                               QuickTunnelUrl = ''abc.trycloudflare.com''\<rparr> None]"
  by (simp add: run_defs sample_defs emit_def log_Msg_def)



text \<open>
  \<^bold>\<open>C4\<close> (order of the fresh path). On the fresh path the stages of a run are fixed by
  the results of provisioning, of the announcement and of the write:
  \<^item> provisioning fails: the run returns that error after the existence check and the
    request, with the files unchanged;
  \<^item> the announcement fails: the run returns that error after the callback attempts,
    with the files unchanged;
  \<^item> the announcement never returns: the run never returns;
  \<^item> the announcement succeeds and the write fails: the run returns the write's error
    after the write;
  \<^item> the announcement and the write succeed: the connector is started; when it
    returns, the run returns what it returns, and its stages are exactly the existence
    check, the provisioning request, the callback attempts, the write and the start of
    the connector, in this order; when it never returns, the run never returns.
  For every run that returns, the stages are a beginning of that sequence, and a write
  (or any change of the files) happens only after provisioning and the announcement have
  both succeeded.
\<close>

theorem fresh_path_stage_order:
  assumes "fst (os_Stat E (ctx_String c ''credentials'') w) = Some ErrNotExist"
  shows "(\<forall>err. provision_result E c w = Inl err \<longrightarrow>
            (\<exists>w'. RunPersistentQuickTunnel E c version w = Some (Returned (Some err), w')
               \<and> stages w w' = [Init, Provision] \<and> files w' = files w))
       \<and> (\<forall>config err.
            provision_result E c w = Inr config
            \<and> announce_result E c config w = Some (Some err) \<longrightarrow>
            (\<exists>w' k. RunPersistentQuickTunnel E c version w = Some (Returned (Some err), w')
               \<and> stages w w' = [Init, Provision] @ replicate (Suc k) AnnounceCallback
               \<and> files w' = files w))
       \<and> (\<forall>config.
            provision_result E c w = Inr config \<and> announce_result E c config w = None \<longrightarrow>
            RunPersistentQuickTunnel E c version w = None)
       \<and> (\<forall>config e.
            provision_result E c w = Inr config \<and> announce_result E c config w = Some None
            \<and> faults E OpWrite (ctx_String c ''credentials'') = Some e \<longrightarrow>
            (\<exists>w' k. RunPersistentQuickTunnel E c version w = Some (Returned (Some (OsError e)), w')
               \<and> stages w w' = [Init, Provision] @ replicate (Suc k) AnnounceCallback @ [Persist]))
       \<and> (\<forall>config r.
            provision_result E c w = Inr config \<and> announce_result E c config w = Some None
            \<and> faults E OpWrite (ctx_String c ''credentials'') = None
            \<and> connector_result E c version config = Some r \<longrightarrow>
            (\<exists>w' k. RunPersistentQuickTunnel E c version w
                      = Some (Returned (map_option ConnectorError r), w')
               \<and> stages w w'
                   = [Init, Provision] @ replicate (Suc k) AnnounceCallback @ [Persist, Connect]
               \<and> files w'
                   = (files w)(ctx_String c ''credentials'' \<mapsto> fst (MarshalIndent E config))))
       \<and> (\<forall>config.
            provision_result E c w = Inr config \<and> announce_result E c config w = Some None
            \<and> faults E OpWrite (ctx_String c ''credentials'') = None
            \<and> connector_result E c version config = None \<longrightarrow>
            RunPersistentQuickTunnel E c version w = None)
       \<and> (\<forall>out w'. RunPersistentQuickTunnel E c version w = Some (out, w') \<longrightarrow>
            (\<exists>k. prefix (stages w w')
                    ([Init, Provision] @ replicate k AnnounceCallback @ [Persist, Connect]))
            \<and> (Persist \<in> set (stages w w') \<or> files w' \<noteq> files w \<longrightarrow>
                 (\<exists>config. provision_result E c w = Inr config
                    \<and> announce_result E c config w = Some None)))"
proof (intro conjI allI impI)
  fix err assume "provision_result E c w = Inl err"
  from fresh_run_total(1)[OF assms this, of version]
  show "\<exists>w'. RunPersistentQuickTunnel E c version w = Some (Returned (Some err), w')
               \<and> stages w w' = [Init, Provision] \<and> files w' = files w"
    by (auto simp: stages_def)
next
  fix config err
  assume a: "provision_result E c w = Inr config
            \<and> announce_result E c config w = Some (Some err)"
  from fresh_run_total(3)[OF assms, of config err version] a
  show "\<exists>w' k. RunPersistentQuickTunnel E c version w = Some (Returned (Some err), w')
               \<and> stages w w' = [Init, Provision] @ replicate (Suc k) AnnounceCallback
               \<and> files w' = files w"
    by (fastforce simp: stages_def stage_of_callbacks)
next
  fix config
  assume a: "provision_result E c w = Inr config \<and> announce_result E c config w = None"
  from fresh_run_total(2)[OF assms, of config version] a
  show "RunPersistentQuickTunnel E c version w = None" by simp
next
  fix config e
  assume a: "provision_result E c w = Inr config \<and> announce_result E c config w = Some None
            \<and> faults E OpWrite (ctx_String c ''credentials'') = Some e"
  from fresh_run_total(4)[OF assms, of config e version] a
  show "\<exists>w' k. RunPersistentQuickTunnel E c version w = Some (Returned (Some (OsError e)), w')
               \<and> stages w w' = [Init, Provision] @ replicate (Suc k) AnnounceCallback @ [Persist]"
    by (fastforce simp: stages_def stage_of_callbacks)
next
  fix config r
  assume a: "provision_result E c w = Inr config \<and> announce_result E c config w = Some None
            \<and> faults E OpWrite (ctx_String c ''credentials'') = None
            \<and> connector_result E c version config = Some r"
  from fresh_run_total(5)[OF assms, of config version r] a
  show "\<exists>w' k. RunPersistentQuickTunnel E c version w
                      = Some (Returned (map_option ConnectorError r), w')
               \<and> stages w w'
                   = [Init, Provision] @ replicate (Suc k) AnnounceCallback @ [Persist, Connect]
               \<and> files w'
                   = (files w)(ctx_String c ''credentials'' \<mapsto> fst (MarshalIndent E config))"
    by (fastforce simp: stages_def stage_of_callbacks)
next
  fix config
  assume a: "provision_result E c w = Inr config \<and> announce_result E c config w = Some None
            \<and> faults E OpWrite (ctx_String c ''credentials'') = None
            \<and> connector_result E c version config = None"
  from fresh_run_total(6)[OF assms, of config version] a
  show "RunPersistentQuickTunnel E c version w = None" by simp
next
  fix out w'
  assume run: "RunPersistentQuickTunnel E c version w = Some (out, w')"
  from assms run
  have "(\<exists>k. prefix (stages w w')
                    ([Init, Provision] @ replicate k AnnounceCallback @ [Persist, Connect]))
        \<and> (Persist \<in> set (stages w w') \<or> files w' \<noteq> files w \<longrightarrow>
                 (\<exists>config. provision_result E c w = Inr config
                    \<and> announce_result E c config w = Some None))"
  proof (cases rule: fresh_run_cases)
    case (provision_failed err)
    have "prefix (stages w w') ([Init, Provision] @ replicate 0 AnnounceCallback @ [Persist, Connect])"
      using provision_failed by (simp add: stages_def)
    then have "\<exists>k. prefix (stages w w')
               ([Init, Provision] @ replicate k AnnounceCallback @ [Persist, Connect])" ..
    with provision_failed show ?thesis by (simp add: stages_def)
  next
    case (announce_failed config err k)
    have st: "stages w w' = [Init, Provision] @ replicate (Suc k) AnnounceCallback"
      using announce_failed(4,5) by (simp add: stages_def stage_of_callbacks)
    have "prefix (stages w w') ([Init, Provision] @ replicate (Suc k) AnnounceCallback @ [Persist, Connect])"
      unfolding st by (simp del: replicate_Suc)
    then have "\<exists>k. prefix (stages w w')
               ([Init, Provision] @ replicate k AnnounceCallback @ [Persist, Connect])" ..
    with announce_failed st show ?thesis by auto
  next
    case (persist_failed config k err)
    have st: "stages w w' = [Init, Provision] @ replicate (Suc k) AnnounceCallback @ [Persist]"
      using persist_failed(5,6) by (simp add: stages_def stage_of_callbacks)
    have "prefix (stages w w') ([Init, Provision] @ replicate (Suc k) AnnounceCallback @ [Persist, Connect])"
      unfolding st by (simp del: replicate_Suc)
    then have "\<exists>k. prefix (stages w w')
               ([Init, Provision] @ replicate k AnnounceCallback @ [Persist, Connect])" ..
    with persist_failed st show ?thesis by auto
  next
    case (connected config k r)
    have st: "stages w w' = [Init, Provision] @ replicate (Suc k) AnnounceCallback @ [Persist, Connect]"
      using connected(6,7) by (simp add: stages_def stage_of_callbacks)
    have "prefix (stages w w') ([Init, Provision] @ replicate (Suc k) AnnounceCallback @ [Persist, Connect])"
      unfolding st by simp
    then have "\<exists>k. prefix (stages w w')
               ([Init, Provision] @ replicate k AnnounceCallback @ [Persist, Connect])" ..
    with connected st show ?thesis by auto
  qed
  then show "\<exists>k. prefix (stages w w')
                    ([Init, Provision] @ replicate k AnnounceCallback @ [Persist, Connect])"
    and "Persist \<in> set (stages w w') \<or> files w' \<noteq> files w \<Longrightarrow>
                 \<exists>config. provision_result E c w = Inr config
                    \<and> announce_result E c config w = Some None"
    by blast+
qed

theorem fresh_path_stage_order_witness:
  "fst (os_Stat sample_env (ctx_String sample_Context ''credentials'') fresh_world)
     = Some ErrNotExist
   \<and> provision_result sample_env sample_Context fresh_world = Inr sample_config
   \<and> announce_result sample_env sample_Context sample_config fresh_world = Some None
   \<and> faults sample_env OpWrite (ctx_String sample_Context ''credentials'') = None
   \<and> connector_result sample_env sample_Context ''DEV'' sample_config = Some None
   \<and> (\<exists>w' k. RunPersistentQuickTunnel sample_env sample_Context ''DEV'' fresh_world
                 = Some (Returned None, w')
          \<and> stages fresh_world w'
              = [Init, Provision] @ replicate (Suc k) AnnounceCallback @ [Persist, Connect]
          \<and> files w' ''./credentials.json'' = Some sample_document)
   \<and> provision_result bad_id_env sample_Context fresh_world
       = Inl (Wrap (UuidError ''invalid UUID length: 10'') ''failed to parse quick Tunnel ID'')
   \<and> (\<exists>w'. RunPersistentQuickTunnel bad_id_env sample_Context ''DEV'' fresh_world
              = Some (Returned (Some (Wrap (UuidError ''invalid UUID length: 10'')
                                        ''failed to parse quick Tunnel ID'')), w')
          \<and> stages fresh_world w' = [Init, Provision] \<and> files w' = files fresh_world)
   \<and> announce_result dead_listener_env sample_Context sample_config fresh_world
       = Some (Some (New ''Callback error''))
   \<and> (\<exists>w' k. RunPersistentQuickTunnel dead_listener_env sample_Context ''DEV'' fresh_world
              = Some (Returned (Some (New ''Callback error'')), w')
          \<and> stages fresh_world w' = [Init, Provision] @ replicate (Suc k) AnnounceCallback
          \<and> files w' = files fresh_world)
   \<and> announce_result patient_env sample_Context sample_config fresh_world = None
   \<and> RunPersistentQuickTunnel patient_env sample_Context ''DEV'' fresh_world = None
   \<and> faults readonly_env OpWrite (ctx_String sample_Context ''credentials'') = Some ErrPermission
   \<and> (\<exists>w' k. RunPersistentQuickTunnel readonly_env sample_Context ''DEV'' fresh_world
              = Some (Returned (Some (OsError ErrPermission)), w')
          \<and> stages fresh_world w'
              = [Init, Provision] @ replicate (Suc k) AnnounceCallback @ [Persist])
   \<and> connector_result serving_env sample_Context ''DEV'' sample_config = None
   \<and> RunPersistentQuickTunnel serving_env sample_Context ''DEV'' fresh_world = None"
proof -
  note ev = provision_result_def announce_result_def attempt_def callback_post_def
    callback_error_def retried_def connector_result_def
  have st: "fst (os_Stat E (ctx_String sample_Context ''credentials'') fresh_world) = Some ErrNotExist"
    if "faults E OpStat = (\<lambda>p. None)" for E
    using that by (simp add: os_Stat_def fresh_world_def Let_def)
  have s1: "fst (os_Stat sample_env (ctx_String sample_Context ''credentials'') fresh_world)
              = Some ErrNotExist"
    by (rule st) (simp add: sample_defs)
  have s2: "fst (os_Stat bad_id_env (ctx_String sample_Context ''credentials'') fresh_world)
              = Some ErrNotExist"
    by (rule st) (simp add: sample_defs)
  have s3: "fst (os_Stat dead_listener_env (ctx_String sample_Context ''credentials'') fresh_world)
              = Some ErrNotExist"
    by (rule st) (simp add: sample_defs)
  have s4: "fst (os_Stat patient_env (ctx_String sample_Context ''credentials'') fresh_world)
              = Some ErrNotExist"
    by (rule st) (simp add: sample_defs)
  have s5: "fst (os_Stat readonly_env (ctx_String sample_Context ''credentials'') fresh_world)
              = Some ErrNotExist"
    by (rule st) (auto simp: sample_defs)
  have p1: "provision_result sample_env sample_Context fresh_world = Inr sample_config"
    by (simp add: ev run_defs sample_defs)
  have a1: "announce_result sample_env sample_Context sample_config fresh_world = Some None"
    by (simp add: ev run_defs sample_defs Retry.simps)
  have f1: "faults sample_env OpWrite (ctx_String sample_Context ''credentials'') = None"
    by (simp add: sample_defs)
  have c1: "connector_result sample_env sample_Context ''DEV'' sample_config = Some None"
    by (simp add: ev sample_defs)
  have s6: "fst (os_Stat serving_env (ctx_String sample_Context ''credentials'') fresh_world)
              = Some ErrNotExist"
    by (rule st) (simp add: sample_defs)
  have p6: "provision_result serving_env sample_Context fresh_world = Inr sample_config"
    by (simp add: ev run_defs sample_defs)
  have a6: "announce_result serving_env sample_Context sample_config fresh_world = Some None"
    by (simp add: ev run_defs sample_defs Retry.simps)
  have f6: "faults serving_env OpWrite (ctx_String sample_Context ''credentials'') = None"
    by (simp add: sample_defs)
  have c6: "connector_result serving_env sample_Context ''DEV'' sample_config = None"
    by (simp add: ev sample_defs)
  note T6 = fresh_path_stage_order[OF s6, of "''DEV''"]
  have r6: "RunPersistentQuickTunnel serving_env sample_Context ''DEV'' fresh_world = None"
    using T6 p6 a6 f6 c6 by blast
  have m1: "fst (MarshalIndent sample_env sample_config) = sample_document"
    by (simp add: sample_env_def sample_MarshalIndent_def)
  have p2: "provision_result bad_id_env sample_Context fresh_world
       = Inl (Wrap (UuidError ''invalid UUID length: 10'') ''failed to parse quick Tunnel ID'')"
    by (simp add: ev run_defs sample_defs)
  have p3: "provision_result dead_listener_env sample_Context fresh_world = Inr sample_config"
    by (simp add: ev run_defs sample_defs)
  have a3: "announce_result dead_listener_env sample_Context sample_config fresh_world
       = Some (Some (New ''Callback error''))"
    by (simp add: ev run_defs sample_defs Retry.simps)
  have p4: "provision_result patient_env sample_Context fresh_world = Inr sample_config"
    by (simp add: ev run_defs sample_defs)
  have rt: "\<forall>i. 0 \<le> i \<longrightarrow> retried patient_env sample_Context sample_config i"
    by (simp add: ev sample_defs)
  have a4: "announce_result patient_env sample_Context sample_config fresh_world = None"
    unfolding announce_result_def by (simp add: Retry_diverges[OF rt])
  have p5: "provision_result readonly_env sample_Context fresh_world = Inr sample_config"
    by (simp add: ev run_defs sample_defs)
  have a5: "announce_result readonly_env sample_Context sample_config fresh_world = Some None"
    by (simp add: ev run_defs sample_defs Retry.simps)
  have f5: "faults readonly_env OpWrite (ctx_String sample_Context ''credentials'') = Some ErrPermission"
    by (simp add: sample_defs)
  note T1 = fresh_path_stage_order[OF s1, of "''DEV''"]
  note T2 = fresh_path_stage_order[OF s2, of "''DEV''"]
  note T3 = fresh_path_stage_order[OF s3, of "''DEV''"]
  note T4 = fresh_path_stage_order[OF s4, of "''DEV''"]
  note T5 = fresh_path_stage_order[OF s5, of "''DEV''"]
  have r1: "\<exists>w' k. RunPersistentQuickTunnel sample_env sample_Context ''DEV'' fresh_world
                 = Some (Returned None, w')
          \<and> stages fresh_world w'
              = [Init, Provision] @ replicate (Suc k) AnnounceCallback @ [Persist, Connect]
          \<and> files w' ''./credentials.json'' = Some sample_document"
    using T1 p1 a1 f1 c1 by (fastforce simp: m1 sample_path)
  have r2: "\<exists>w'. RunPersistentQuickTunnel bad_id_env sample_Context ''DEV'' fresh_world
              = Some (Returned (Some (Wrap (UuidError ''invalid UUID length: 10'')
                                        ''failed to parse quick Tunnel ID'')), w')
          \<and> stages fresh_world w' = [Init, Provision] \<and> files w' = files fresh_world"
    using T2 p2 by blast
  have r3: "\<exists>w' k. RunPersistentQuickTunnel dead_listener_env sample_Context ''DEV'' fresh_world
              = Some (Returned (Some (New ''Callback error'')), w')
          \<and> stages fresh_world w' = [Init, Provision] @ replicate (Suc k) AnnounceCallback
          \<and> files w' = files fresh_world"
    using T3 p3 a3 by blast
  have r4: "RunPersistentQuickTunnel patient_env sample_Context ''DEV'' fresh_world = None"
    using T4 p4 a4 by blast
  have r5: "\<exists>w' k. RunPersistentQuickTunnel readonly_env sample_Context ''DEV'' fresh_world
              = Some (Returned (Some (OsError ErrPermission)), w')
          \<and> stages fresh_world w'
              = [Init, Provision] @ replicate (Suc k) AnnounceCallback @ [Persist]"
    using T5 p5 a5 f5 by blast
  from s1 p1 a1 f1 c1 r1 p2 r2 a3 r3 a4 r4 f5 r5 c6 r6 show ?thesis by blast
qed

text \<open>
  \<^bold>\<open>C5\<close> (an id that is no UUID). When \<open>uuid.Parse\<close> rejects \<open>result.id\<close>,
  \<open>RequestNewQuickTunnel\<close> returns that error wrapped as "failed to parse quick Tunnel
  ID" and no config; on the fresh path the run returns this error, and it has made no
  callback POST, written no file and not started the connector.
\<close>

theorem invalid_uuid_rejected:
  assumes "http_Post_tunnel E (ctx_String c ''quick-service'' @ ''/tunnel'') = Inr body"
      and "Decode E body = Inr data"
      and "uuid_Parse E (ID (Result data)) = Inl msg"
  shows "fst (RequestNewQuickTunnel E c w)
           = Inl (Wrap (UuidError msg) ''failed to parse quick Tunnel ID'')
       \<and> (fst (os_Stat E (ctx_String c ''credentials'') w) = Some ErrNotExist \<longrightarrow>
            (\<exists>w'. RunPersistentQuickTunnel E c version w
                    = Some (Returned (Some (Wrap (UuidError msg) ''failed to parse quick Tunnel ID'')), w')
                 \<and> files w' = files w
                 \<and> AnnounceCallback \<notin> set (stages w w')
                 \<and> Persist \<notin> set (stages w w')
                 \<and> Connect \<notin> set (stages w w')))"
proof -
  let ?err = "Wrap (UuidError msg) ''failed to parse quick Tunnel ID''"
  have req: "fst (RequestNewQuickTunnel E c w) = Inl ?err"
    using assms by (simp add: RequestNewQuickTunnel_def Let_def)
  have "\<exists>w'. RunPersistentQuickTunnel E c version w = Some (Returned (Some ?err), w')
                 \<and> files w' = files w
                 \<and> AnnounceCallback \<notin> set (stages w w')
                 \<and> Persist \<notin> set (stages w w')
                 \<and> Connect \<notin> set (stages w w')"
    if fresh: "fst (os_Stat E (ctx_String c ''credentials'') w) = Some ErrNotExist"
  proof -
    have pr: "provision_result E c w = Inl ?err"
      using req by (simp add: provision_result_def)
    from fresh_run_total(1)[OF fresh pr, of version]
    obtain w' where run: "RunPersistentQuickTunnel E c version w = Some (Returned (Some ?err), w')"
      by blast
    from fresh run have "files w' = files w \<and> stages w w' = [Init, Provision]"
    proof (cases rule: fresh_run_cases)
      case (provision_failed err)
      then show ?thesis by (simp add: stages_def)
    qed (simp_all add: pr)
    with run show ?thesis by auto
  qed
  with req show ?thesis by blast
qed

theorem invalid_uuid_rejected_witness:
  "http_Post_tunnel bad_id_env (ctx_String sample_Context ''quick-service'' @ ''/tunnel'')
     = Inr bad_id_body
   \<and> Decode bad_id_env bad_id_body
       = Inr (sample_response\<lparr>Result := (Result sample_response)\<lparr>ID := ''not-a-uuid''\<rparr>\<rparr>)
   \<and> uuid_Parse bad_id_env ''not-a-uuid'' = Inl ''invalid UUID length: 10''
   \<and> fst (RequestNewQuickTunnel bad_id_env sample_Context fresh_world)
       = Inl (Wrap (UuidError ''invalid UUID length: 10'') ''failed to parse quick Tunnel ID'')
   \<and> fst (os_Stat bad_id_env (ctx_String sample_Context ''credentials'') fresh_world)
       = Some ErrNotExist
   \<and> (\<exists>w'. RunPersistentQuickTunnel bad_id_env sample_Context ''DEV'' fresh_world
              = Some (Returned (Some (Wrap (UuidError ''invalid UUID length: 10'')
                                        ''failed to parse quick Tunnel ID'')), w')
          \<and> files w' = files fresh_world
          \<and> AnnounceCallback \<notin> set (stages fresh_world w')
          \<and> Persist \<notin> set (stages fresh_world w'))"
proof -
  let ?data = "sample_response\<lparr>Result := (Result sample_response)\<lparr>ID := ''not-a-uuid''\<rparr>\<rparr>"
  have a: "http_Post_tunnel bad_id_env (ctx_String sample_Context ''quick-service'' @ ''/tunnel'')
             = Inr bad_id_body"
    by (simp add: bad_id_env_def sample_env_def)
  have b: "Decode bad_id_env bad_id_body = Inr ?data"
    by (simp add: sample_defs)
  have c: "uuid_Parse bad_id_env (ID (Result ?data)) = Inl ''invalid UUID length: 10''"
    by (simp add: sample_defs)
  have st: "fst (os_Stat bad_id_env (ctx_String sample_Context ''credentials'') fresh_world)
              = Some ErrNotExist"
    by (simp add: run_defs sample_defs)
  from invalid_uuid_rejected[OF a b c, of fresh_world "''DEV''"] st a b c
  show ?thesis by auto
qed

text \<open>
  \<^bold>\<open>C6\<close> (the existence check). The claim: an error of the check other than absence is
  surfaced and not mapped to either path. The code tests \<open>errors.Is(err,
  os.ErrNotExist)\<close> and nothing else, so every other error selects the resumed path:
  when \<open>os.Stat\<close> fails with an I/O error while the file can be read, the run reads the
  stored config, starts the connector with it and returns \<open>nil\<close>.
\<close>

theorem stat_error_not_surfaced_counterexample:
  "fst (os_Stat flaky_stat_env ''./credentials.json'' resumed_world)
     = Some (ErrOther ''input/output error'')
   \<and> map_option fst
       (RunPersistentQuickTunnel flaky_stat_env sample_Context ''DEV'' resumed_world)
     = Some (Returned None)
   \<and> map_option (trace \<circ> snd)
       (RunPersistentQuickTunnel flaky_stat_env sample_Context ''DEV'' resumed_world)
     = Some [EvStat ''./credentials.json'' (Some (ErrOther ''input/output error'')),
             EvReadFile ''./credentials.json'' None,
             EvStartServer \<lparr>NamedCredentials = Credentials sample_config,
                             QuickTunnelUrl = ''abc.trycloudflare.com''\<rparr> None]"
  by (simp add: run_defs sample_defs)

text \<open>
  \<^bold>\<open>C6\<close>, amended. The fresh path is taken exactly when the error of \<open>os.Stat\<close> is
  \<open>ErrNotExist\<close>: then the file is never read, the first outside call after the check
  is the provisioning request, and the run returns unless the announcement or the
  connector never returns. Every other result of \<open>os.Stat\<close>, success or any other
  error, selects the resumed path: the first outside call after the check is the read
  of the file and no provisioning request is made. When the load gives no config the
  run ends there; when it gives a config the connector is started with it, and the run
  returns what the resumed path returns: \<open>nil\<close> when the connector returns \<open>nil\<close>;
  when the connector fails, the error of \<open>os.Remove\<close> or, when the removal succeeds,
  the error "Failed to start server. Restart to create new tunnel."; and it never
  returns when the connector never does.
\<close>

theorem path_chosen_by_stat_error:
  "(fst (os_Stat E (ctx_String c ''credentials'') w) = Some ErrNotExist \<longrightarrow>
      (RunPersistentQuickTunnel E c version w = None)
        = (\<exists>config. provision_result E c w = Inr config
             \<and> (announce_result E c config w = None
                \<or> announce_result E c config w = Some None
                  \<and> faults E OpWrite (ctx_String c ''credentials'') = None
                  \<and> connector_result E c version config = None))
      \<and> (\<forall>out w'. RunPersistentQuickTunnel E c version w = Some (out, w') \<longrightarrow>
           take 2 (new_events w w') = [stat_event E c w, tunnel_event E c]
           \<and> Load \<notin> set (stages w w')))
   \<and> (fst (os_Stat E (ctx_String c ''credentials'') w) \<noteq> Some ErrNotExist \<longrightarrow>
      (case loaded_config E c w of
         None \<Rightarrow>
           (\<exists>out w'. RunPersistentQuickTunnel E c version w = Some (out, w')
              \<and> new_events w w' = [stat_event E c w, read_event E c w])
       | Some cfg \<Rightarrow>
           (case connector_result E c version cfg of
              None \<Rightarrow> RunPersistentQuickTunnel E c version w = None
            | Some r \<Rightarrow>
                (\<exists>w'. RunPersistentQuickTunnel E c version w
                        = Some (case r of
                                  None \<Rightarrow> Returned None
                                | Some e \<Rightarrow>
                                    (case fst (os_Remove E (ctx_String c ''credentials'') w) of
                                       Some deleteErr \<Rightarrow> Returned (Some (OsError deleteErr))
                                     | None \<Rightarrow>
                                         Returned (Some (New ''Failed to start server. Restart to create new tunnel.''))),
                                w')
                   \<and> take 3 (new_events w w')
                       = [stat_event E c w, read_event E c w,
                          EvStartServer (connector_config cfg) r]
                   \<and> Provision \<notin> set (stages w w')))))"
proof (intro conjI impI allI)
  assume fresh: "fst (os_Stat E (ctx_String c ''credentials'') w) = Some ErrNotExist"
  show "(RunPersistentQuickTunnel E c version w = None)
        = (\<exists>config. provision_result E c w = Inr config
             \<and> (announce_result E c config w = None
                \<or> announce_result E c config w = Some None
                  \<and> faults E OpWrite (ctx_String c ''credentials'') = None
                  \<and> connector_result E c version config = None))"
    by (rule fresh_run_returns[OF fresh])
  fix out w'
  assume run: "RunPersistentQuickTunnel E c version w = Some (out, w')"
  from fresh run show "take 2 (new_events w w') = [stat_event E c w, tunnel_event E c]"
    by (cases rule: fresh_run_cases) simp_all
  from fresh run show "Load \<notin> set (stages w w')"
    by (cases rule: fresh_run_cases) (auto simp: stages_def stage_of_callbacks)
next
  assume resumed: "fst (os_Stat E (ctx_String c ''credentials'') w) \<noteq> Some ErrNotExist"
  show "case loaded_config E c w of
         None \<Rightarrow>
           (\<exists>out w'. RunPersistentQuickTunnel E c version w = Some (out, w')
              \<and> new_events w w' = [stat_event E c w, read_event E c w])
       | Some cfg \<Rightarrow>
           (case connector_result E c version cfg of
              None \<Rightarrow> RunPersistentQuickTunnel E c version w = None
            | Some r \<Rightarrow>
                (\<exists>w'. RunPersistentQuickTunnel E c version w
                        = Some (case r of
                                  None \<Rightarrow> Returned None
                                | Some e \<Rightarrow>
                                    (case fst (os_Remove E (ctx_String c ''credentials'') w) of
                                       Some deleteErr \<Rightarrow> Returned (Some (OsError deleteErr))
                                     | None \<Rightarrow>
                                         Returned (Some (New ''Failed to start server. Restart to create new tunnel.''))),
                                w')
                   \<and> take 3 (new_events w w')
                       = [stat_event E c w, read_event E c w,
                          EvStartServer (connector_config cfg) r]
                   \<and> Provision \<notin> set (stages w w')))"
  proof (cases "loaded_config E c w")
    case None
    from resumed_run_total(1)[OF resumed None, of version] None
    show ?thesis by auto
  next
    case (Some cfg)
    show ?thesis
    proof (cases "connector_result E c version cfg")
      case None
      from resumed_run_total(2)[OF resumed Some None] Some None
      show ?thesis by simp
    next
      case res: (Some r)
      show ?thesis
      proof (cases r)
        case None
        from resumed_run_total(3)[OF resumed Some res[unfolded None], of ] Some res None
        show ?thesis by (auto simp: stages_def)
      next
        case failed: (Some e)
        from resumed_run_total(4)[OF resumed Some res[unfolded failed]] Some res failed
        show ?thesis by (auto simp: stages_def)
      qed
    qed
  qed
qed

theorem path_chosen_by_stat_error_witness:
  "fst (os_Stat sample_env (ctx_String sample_Context ''credentials'') fresh_world)
     = Some ErrNotExist
   \<and> (\<exists>out w'. RunPersistentQuickTunnel sample_env sample_Context ''DEV'' fresh_world
                  = Some (out, w')
          \<and> take 2 (new_events fresh_world w')
              = [EvStat ''./credentials.json'' (Some ErrNotExist),
                 EvPostTunnel ''https://api.trycloudflare.com/tunnel'' (Inr sample_body)]
          \<and> Load \<notin> set (stages fresh_world w'))
   \<and> fst (os_Stat flaky_stat_env (ctx_String sample_Context ''credentials'') resumed_world)
     = Some (ErrOther ''input/output error'')
   \<and> loaded_config flaky_stat_env sample_Context resumed_world = Some sample_config
   \<and> connector_result flaky_stat_env sample_Context ''DEV'' sample_config = Some None
   \<and> (\<exists>w'. RunPersistentQuickTunnel flaky_stat_env sample_Context ''DEV'' resumed_world
                  = Some (Returned None, w')
          \<and> take 3 (new_events resumed_world w')
              = [EvStat ''./credentials.json'' (Some (ErrOther ''input/output error'')),
                 EvReadFile ''./credentials.json'' None,
                 EvStartServer (connector_config sample_config) None]
          \<and> Provision \<notin> set (stages resumed_world w'))
   \<and> fst (os_Stat unreachable_env (ctx_String sample_Context ''credentials'') resumed_world)
     = None
   \<and> loaded_config unreachable_env sample_Context resumed_world = Some sample_config
   \<and> connector_result unreachable_env sample_Context ''DEV'' sample_config
       = Some (Some ''edge unreachable'')
   \<and> (\<exists>w'. RunPersistentQuickTunnel unreachable_env sample_Context ''DEV'' resumed_world
                  = Some (Returned (Some (New ''Failed to start server. Restart to create new tunnel.'')), w')
          \<and> take 3 (new_events resumed_world w')
              = [EvStat ''./credentials.json'' None, EvReadFile ''./credentials.json'' None,
                 EvStartServer (connector_config sample_config) (Some ''edge unreachable'')]
          \<and> Provision \<notin> set (stages resumed_world w'))
   \<and> fst (os_Stat serving_env (ctx_String sample_Context ''credentials'') resumed_world)
     = None
   \<and> loaded_config serving_env sample_Context resumed_world = Some sample_config
   \<and> connector_result serving_env sample_Context ''DEV'' sample_config = None
   \<and> RunPersistentQuickTunnel serving_env sample_Context ''DEV'' resumed_world = None
   \<and> fst (os_Stat denied_env (ctx_String sample_Context ''credentials'') fresh_world)
     = Some ErrPermission
   \<and> loaded_config denied_env sample_Context fresh_world = None
   \<and> (\<exists>out w'. RunPersistentQuickTunnel denied_env sample_Context ''DEV'' fresh_world
                  = Some (out, w')
          \<and> new_events fresh_world w'
              = [EvStat ''./credentials.json'' (Some ErrPermission),
                 EvReadFile ''./credentials.json'' (Some ErrPermission)])"
proof -
  define r where
    "r = the (RunPersistentQuickTunnel sample_env sample_Context ''DEV'' fresh_world)"
  note ev = stat_event_def tunnel_event_def read_event_def
  have st: "fst (os_Stat sample_env (ctx_String sample_Context ''credentials'') fresh_world)
              = Some ErrNotExist"
    by (simp add: run_defs sample_defs)
  have run: "RunPersistentQuickTunnel sample_env sample_Context ''DEV'' fresh_world
               = Some (fst r, snd r)"
    by (simp add: r_def run_defs sample_defs Retry.simps)
  have sf: "fst (os_Stat flaky_stat_env (ctx_String sample_Context ''credentials'') resumed_world)
              = Some (ErrOther ''input/output error'')"
    by (simp add: run_defs sample_defs)
  have su: "fst (os_Stat unreachable_env (ctx_String sample_Context ''credentials'') resumed_world)
              = None"
    by (simp add: run_defs sample_defs)
  have ss: "fst (os_Stat serving_env (ctx_String sample_Context ''credentials'') resumed_world)
              = None"
    by (simp add: run_defs sample_defs)
  have sd: "fst (os_Stat denied_env (ctx_String sample_Context ''credentials'') fresh_world)
              = Some ErrPermission"
    by (simp add: run_defs sample_defs)
  have lf: "loaded_config flaky_stat_env sample_Context resumed_world = Some sample_config"
    by (simp add: loaded_config_def run_defs sample_defs)
  have lu: "loaded_config unreachable_env sample_Context resumed_world = Some sample_config"
    by (simp add: loaded_config_def run_defs sample_defs)
  have ls: "loaded_config serving_env sample_Context resumed_world = Some sample_config"
    by (simp add: loaded_config_def run_defs sample_defs)
  have ld: "loaded_config denied_env sample_Context fresh_world = None"
    by (simp add: loaded_config_def run_defs sample_defs)
  have cf: "connector_result flaky_stat_env sample_Context ''DEV'' sample_config = Some None"
    by (simp add: connector_result_def sample_defs)
  have cu: "connector_result unreachable_env sample_Context ''DEV'' sample_config
              = Some (Some ''edge unreachable'')"
    by (simp add: connector_result_def sample_defs)
  have cs: "connector_result serving_env sample_Context ''DEV'' sample_config = None"
    by (simp add: connector_result_def sample_defs)
  have ru: "fst (os_Remove unreachable_env (ctx_String sample_Context ''credentials'') resumed_world)
              = None"
    by (simp add: run_defs sample_defs)
  have e1: "[stat_event sample_env sample_Context fresh_world, tunnel_event sample_env sample_Context]
              = [EvStat ''./credentials.json'' (Some ErrNotExist),
                 EvPostTunnel ''https://api.trycloudflare.com/tunnel'' (Inr sample_body)]"
    by (simp add: ev run_defs sample_defs)
  have e2: "stat_event flaky_stat_env sample_Context resumed_world
              = EvStat ''./credentials.json'' (Some (ErrOther ''input/output error''))"
           "read_event flaky_stat_env sample_Context resumed_world
              = EvReadFile ''./credentials.json'' None"
    by (simp_all add: ev run_defs sample_defs)
  have e3: "stat_event unreachable_env sample_Context resumed_world
              = EvStat ''./credentials.json'' None"
           "read_event unreachable_env sample_Context resumed_world
              = EvReadFile ''./credentials.json'' None"
    by (simp_all add: ev run_defs sample_defs)
  have e4: "stat_event denied_env sample_Context fresh_world
              = EvStat ''./credentials.json'' (Some ErrPermission)"
           "read_event denied_env sample_Context fresh_world
              = EvReadFile ''./credentials.json'' (Some ErrPermission)"
    by (simp_all add: ev run_defs sample_defs)
  note T1 = path_chosen_by_stat_error[of sample_env sample_Context fresh_world "''DEV''"]
  note T2 = path_chosen_by_stat_error[of flaky_stat_env sample_Context resumed_world "''DEV''"]
  note T3 = path_chosen_by_stat_error[of unreachable_env sample_Context resumed_world "''DEV''"]
  note T4 = path_chosen_by_stat_error[of serving_env sample_Context resumed_world "''DEV''"]
  note T5 = path_chosen_by_stat_error[of denied_env sample_Context fresh_world "''DEV''"]
  have a: "take 2 (new_events fresh_world (snd r))
              = [EvStat ''./credentials.json'' (Some ErrNotExist),
                 EvPostTunnel ''https://api.trycloudflare.com/tunnel'' (Inr sample_body)]
          \<and> Load \<notin> set (stages fresh_world (snd r))"
    using T1[THEN conjunct1, THEN mp, OF st, THEN conjunct2, rule_format, OF run] unfolding e1 .
  have b: "\<exists>w'. RunPersistentQuickTunnel flaky_stat_env sample_Context ''DEV'' resumed_world
                  = Some (Returned None, w')
          \<and> take 3 (new_events resumed_world w')
              = [EvStat ''./credentials.json'' (Some (ErrOther ''input/output error'')),
                 EvReadFile ''./credentials.json'' None,
                 EvStartServer (connector_config sample_config) None]
          \<and> Provision \<notin> set (stages resumed_world w')"
    using T2[THEN conjunct2] sf by (simp add: lf cf e2)
  have c: "\<exists>w'. RunPersistentQuickTunnel unreachable_env sample_Context ''DEV'' resumed_world
                  = Some (Returned (Some (New ''Failed to start server. Restart to create new tunnel.'')), w')
          \<and> take 3 (new_events resumed_world w')
              = [EvStat ''./credentials.json'' None, EvReadFile ''./credentials.json'' None,
                 EvStartServer (connector_config sample_config) (Some ''edge unreachable'')]
          \<and> Provision \<notin> set (stages resumed_world w')"
    using T3[THEN conjunct2] su by (simp add: lu cu ru e3)
  have d: "RunPersistentQuickTunnel serving_env sample_Context ''DEV'' resumed_world = None"
    using T4[THEN conjunct2] ss by (simp add: ls cs)
  have e: "\<exists>out w'. RunPersistentQuickTunnel denied_env sample_Context ''DEV'' fresh_world
                  = Some (out, w')
          \<and> new_events fresh_world w'
              = [EvStat ''./credentials.json'' (Some ErrPermission),
                 EvReadFile ''./credentials.json'' (Some ErrPermission)]"
    using T5[THEN conjunct2] sd by (simp add: ld e4)
  from st run a sf lf cf b su lu cu c ss ls cs d sd ld e show ?thesis by blast
qed

text \<open>
  \<^bold>\<open>C8\<close> (connector failure on a fresh session). On the fresh path, when provisioning,
  the announcement and the write have succeeded and the connector reports a failure, the
  run returns, and it returns the connector's error itself; no \<open>os.Remove\<close> is called,
  and the files are those from before the run with the config file holding the document
  of the provisioned config. Conversely, every run on the fresh path in which the
  connector was started and reported a failure is such a run.
\<close>

theorem fresh_connector_failure_keeps_config:
  assumes "fst (os_Stat E (ctx_String c ''credentials'') w) = Some ErrNotExist"
  shows "(\<forall>config e.
            provision_result E c w = Inr config \<and> announce_result E c config w = Some None
            \<and> faults E OpWrite (ctx_String c ''credentials'') = None
            \<and> connector_result E c version config = Some (Some e) \<longrightarrow>
            (\<exists>w'. RunPersistentQuickTunnel E c version w
                    = Some (Returned (Some (ConnectorError e)), w')
               \<and> EvStartServer (connector_config config) (Some e) \<in> set (new_events w w')
               \<and> Delete \<notin> set (stages w w')
               \<and> files w'
                   = (files w)(ctx_String c ''credentials'' \<mapsto> fst (MarshalIndent E config))))
       \<and> (\<forall>out w' ntc e.
            RunPersistentQuickTunnel E c version w = Some (out, w')
            \<and> EvStartServer ntc (Some e) \<in> set (new_events w w') \<longrightarrow>
            out = Returned (Some (ConnectorError e))
            \<and> Delete \<notin> set (stages w w')
            \<and> (\<exists>config. provision_result E c w = Inr config
                  \<and> announce_result E c config w = Some None
                  \<and> connector_result E c version config = Some (Some e)
                  \<and> files w'
                      = (files w)(ctx_String c ''credentials'' \<mapsto> fst (MarshalIndent E config))))"
proof (intro conjI allI impI)
  fix config e
  assume a: "provision_result E c w = Inr config \<and> announce_result E c config w = Some None
            \<and> faults E OpWrite (ctx_String c ''credentials'') = None
            \<and> connector_result E c version config = Some (Some e)"
  from fresh_run_total(5)[OF assms, of config version "Some e"] a
  obtain w' k where r:
    "RunPersistentQuickTunnel E c version w = Some (Returned (Some (ConnectorError e)), w')"
    "new_events w w' =
       [stat_event E c w, tunnel_event E c] @ callback_events E c config [0..<Suc k]
       @ [EvWriteFile (ctx_String c ''credentials'') (fst (MarshalIndent E config)) None,
          EvStartServer (connector_config config) (Some e)]"
    "files w' = (files w)(ctx_String c ''credentials'' \<mapsto> fst (MarshalIndent E config))"
    by auto
  have "EvStartServer (connector_config config) (Some e) \<in> set (new_events w w')"
    unfolding r(2) by simp
  moreover have "Delete \<notin> set (stages w w')"
    unfolding stages_events[OF r(2)] by (auto simp: stage_of_callbacks)
  ultimately
  show "\<exists>w'. RunPersistentQuickTunnel E c version w
                    = Some (Returned (Some (ConnectorError e)), w')
               \<and> EvStartServer (connector_config config) (Some e) \<in> set (new_events w w')
               \<and> Delete \<notin> set (stages w w')
               \<and> files w'
                   = (files w)(ctx_String c ''credentials'' \<mapsto> fst (MarshalIndent E config))"
    using r(1,3) by blast
next
  fix out w' ntc e
  assume a: "RunPersistentQuickTunnel E c version w = Some (out, w')
            \<and> EvStartServer ntc (Some e) \<in> set (new_events w w')"
  then have run: "RunPersistentQuickTunnel E c version w = Some (out, w')"
    and ev: "EvStartServer ntc (Some e) \<in> set (new_events w w')" by simp_all
  from assms run
  have "out = Returned (Some (ConnectorError e))
            \<and> Delete \<notin> set (stages w w')
            \<and> (\<exists>config. provision_result E c w = Inr config
                  \<and> announce_result E c config w = Some None
                  \<and> connector_result E c version config = Some (Some e)
                  \<and> files w'
                      = (files w)(ctx_String c ''credentials'' \<mapsto> fst (MarshalIndent E config)))"
  proof (cases rule: fresh_run_cases)
    case (provision_failed err)
    with ev show ?thesis by simp
  next
    case (announce_failed config err k)
    with ev show ?thesis by auto
  next
    case (persist_failed config k err)
    with ev show ?thesis by auto
  next
    case (connected config k r)
    from connected(7) ev have e: "r = Some e"
      by auto
    have "Delete \<notin> set (stages w w')"
      unfolding stages_events[OF connected(7)] by (auto simp: stage_of_callbacks)
    with connected e show ?thesis by auto
  qed
  then show "out = Returned (Some (ConnectorError e))"
    and "Delete \<notin> set (stages w w')"
    and "\<exists>config. provision_result E c w = Inr config
                  \<and> announce_result E c config w = Some None
                  \<and> connector_result E c version config = Some (Some e)
                  \<and> files w'
                      = (files w)(ctx_String c ''credentials'' \<mapsto> fst (MarshalIndent E config))"
    by blast+
qed

theorem fresh_connector_failure_keeps_config_witness:
  "fst (os_Stat unreachable_env (ctx_String sample_Context ''credentials'') fresh_world)
     = Some ErrNotExist
   \<and> provision_result unreachable_env sample_Context fresh_world = Inr sample_config
   \<and> announce_result unreachable_env sample_Context sample_config fresh_world = Some None
   \<and> faults unreachable_env OpWrite (ctx_String sample_Context ''credentials'') = None
   \<and> connector_result unreachable_env sample_Context ''DEV'' sample_config
       = Some (Some ''edge unreachable'')
   \<and> (\<exists>w'. RunPersistentQuickTunnel unreachable_env sample_Context ''DEV'' fresh_world
              = Some (Returned (Some (ConnectorError ''edge unreachable'')), w')
          \<and> EvStartServer (connector_config sample_config) (Some ''edge unreachable'')
                \<in> set (new_events fresh_world w')
          \<and> Delete \<notin> set (stages fresh_world w')
          \<and> files w' ''./credentials.json'' = Some sample_document)"
proof -
  note ev = provision_result_def announce_result_def attempt_def callback_post_def
    callback_error_def retried_def connector_result_def
  have st: "fst (os_Stat unreachable_env (ctx_String sample_Context ''credentials'') fresh_world)
              = Some ErrNotExist"
    by (simp add: run_defs sample_defs)
  have p: "provision_result unreachable_env sample_Context fresh_world = Inr sample_config"
    by (simp add: ev run_defs sample_defs)
  have a: "announce_result unreachable_env sample_Context sample_config fresh_world = Some None"
    by (simp add: ev run_defs sample_defs Retry.simps)
  have f: "faults unreachable_env OpWrite (ctx_String sample_Context ''credentials'') = None"
    by (simp add: sample_defs)
  have c: "connector_result unreachable_env sample_Context ''DEV'' sample_config
             = Some (Some ''edge unreachable'')"
    by (simp add: ev sample_defs)
  have m: "fst (MarshalIndent unreachable_env sample_config) = sample_document"
    by (simp add: unreachable_env_def sample_env_def sample_MarshalIndent_def)
  from fresh_connector_failure_keeps_config[OF st, of "''DEV''", THEN conjunct1, rule_format,
         of sample_config "''edge unreachable''"] p a f c
  have "\<exists>w'. RunPersistentQuickTunnel unreachable_env sample_Context ''DEV'' fresh_world
              = Some (Returned (Some (ConnectorError ''edge unreachable'')), w')
          \<and> EvStartServer (connector_config sample_config) (Some ''edge unreachable'')
                \<in> set (new_events fresh_world w')
          \<and> Delete \<notin> set (stages fresh_world w')
          \<and> files w' ''./credentials.json'' = Some sample_document"
    by (fastforce simp: m sample_path)
  with st p a f c show ?thesis by blast
qed

text \<open>
  \<^bold>\<open>C9\<close> (the retry loop). The claim: the loop has no cap, so that it never returns an
  error when every response fails. \<open>backoff.Retry\<close> stops when the policy's
  \<open>NextBackOff\<close> answers \<open>Stop\<close>: with a listener that answers 500 to every POST
  and a policy that stops after the third attempt, the loop returns "Callback error"
  and so does the run, after three POSTs.
\<close>

theorem unbounded_retry_counterexample:
  "map_option fst
     (Retry (callbackOperation dead_listener_env sample_Context sample_config)
        (NextBackOff dead_listener_env) 0 fresh_world)
     = Some (Some (New ''Callback error''))
   \<and> map_option fst (RunPersistentQuickTunnel dead_listener_env sample_Context ''DEV'' fresh_world)
     = Some (Returned (Some (New ''Callback error'')))
   \<and> map_option (trace \<circ> snd)
       (RunPersistentQuickTunnel dead_listener_env sample_Context ''DEV'' fresh_world)
     = Some [EvStat ''./credentials.json'' (Some ErrNotExist),
             EvPostTunnel ''https://api.trycloudflare.com/tunnel'' (Inr sample_body),
             EvPostCallback 0 ''http://localhost:8080/callback'' ''abc.trycloudflare.com'' (Inr 500),
             EvPostCallback 1 ''http://localhost:8080/callback'' ''abc.trycloudflare.com'' (Inr 500),
             EvPostCallback 2 ''http://localhost:8080/callback'' ''abc.trycloudflare.com'' (Inr 500)]"
  by (simp add: run_defs sample_defs Retry.simps)

text \<open>
  \<^bold>\<open>C9\<close>, amended. An attempt is retried when it fails and \<open>NextBackOff\<close> answers a
  wait. With all attempts before attempt \<open>k\<close> retried:
  \<^item> if attempt \<open>k\<close> succeeds, the loop returns \<open>nil\<close> after \<open>k + 1\<close> POSTs;
  \<^item> if attempt \<open>k\<close> fails and \<open>NextBackOff\<close> answers \<open>Stop\<close>, the loop returns
    the error of attempt \<open>k\<close>, and on the fresh path the run returns this error with
    the files unchanged;
  \<^item> if the POST of attempt \<open>k\<close> never returns, neither the loop nor the run returns.

  If every attempt is retried, neither the loop nor the run returns. Whenever the loop
  returns, it does so in the first or the second way: it returns an error only after
  \<open>NextBackOff\<close> has answered \<open>Stop\<close>.
\<close>

theorem callback_retry_until_success_or_stop:
  "(\<forall>k. (\<forall>i<k. retried E c config i) \<and> attempt E c config k = Some None \<longrightarrow>
         Retry (callbackOperation E c config) (NextBackOff E) 0 w =
           Some (None, w\<lparr>trace := trace w @ callback_events E c config [0..<Suc k]\<rparr>)
         \<and> length (callback_events E c config [0..<Suc k]) = Suc k)
   \<and> (\<forall>k err. (\<forall>i<k. retried E c config i)
         \<and> attempt E c config k = Some (Some err) \<and> NextBackOff E k = Stop \<longrightarrow>
         Retry (callbackOperation E c config) (NextBackOff E) 0 w =
           Some (Some err, w\<lparr>trace := trace w @ callback_events E c config [0..<Suc k]\<rparr>)
         \<and> length (callback_events E c config [0..<Suc k]) = Suc k
         \<and> (fst (os_Stat E (ctx_String c ''credentials'') w) = Some ErrNotExist
              \<and> provision_result E c w = Inr config \<longrightarrow>
              (\<exists>w'. RunPersistentQuickTunnel E c version w = Some (Returned (Some err), w')
                 \<and> files w' = files w)))
   \<and> (\<forall>k. (\<forall>i<k. retried E c config i) \<and> attempt E c config k = None \<longrightarrow>
         Retry (callbackOperation E c config) (NextBackOff E) 0 w = None
         \<and> (fst (os_Stat E (ctx_String c ''credentials'') w) = Some ErrNotExist
              \<and> provision_result E c w = Inr config \<longrightarrow>
              RunPersistentQuickTunnel E c version w = None))
   \<and> ((\<forall>i. retried E c config i) \<longrightarrow>
         Retry (callbackOperation E c config) (NextBackOff E) 0 w = None
         \<and> (fst (os_Stat E (ctx_String c ''credentials'') w) = Some ErrNotExist
              \<and> provision_result E c w = Inr config \<longrightarrow>
              RunPersistentQuickTunnel E c version w = None))
   \<and> (\<forall>r w'. Retry (callbackOperation E c config) (NextBackOff E) 0 w = Some (r, w') \<longrightarrow>
         (\<exists>k. (\<forall>i<k. retried E c config i) \<and> attempt E c config k = Some r
            \<and> (r \<noteq> None \<longrightarrow> NextBackOff E k = Stop)
            \<and> w' = w\<lparr>trace := trace w @ callback_events E c config [0..<Suc k]\<rparr>))"
proof (intro conjI allI impI)
  have len: "length (callback_events E c config [0..<Suc k]) = Suc k"
    if "\<forall>i<k. retried E c config i" "attempt E c config k \<noteq> None" for k
  proof -
    have "attempt E c config i \<noteq> None" if "i < Suc k" for i
      using that \<open>\<forall>i<k. retried E c config i\<close> \<open>attempt E c config k \<noteq> None\<close>
      by (cases "i = k") (auto simp: retried_iff less_Suc_eq)
    then have "\<forall>i\<in>set [0..<Suc k]. attempt E c config i \<noteq> None"
      by auto
    from length_callback_events[OF this] show ?thesis
      by simp
  qed
  {
    fix k
    assume a: "(\<forall>i<k. retried E c config i) \<and> attempt E c config k = Some None"
    show "Retry (callbackOperation E c config) (NextBackOff E) 0 w =
             Some (None, w\<lparr>trace := trace w @ callback_events E c config [0..<Suc k]\<rparr>)"
      using Retry_complete[of 0 k E c config None w] a by simp
    show "length (callback_events E c config [0..<Suc k]) = Suc k"
      using len[of k] a by simp
  next
    fix k err
    assume a: "(\<forall>i<k. retried E c config i)
           \<and> attempt E c config k = Some (Some err) \<and> NextBackOff E k = Stop"
    show r: "Retry (callbackOperation E c config) (NextBackOff E) 0 w =
             Some (Some err, w\<lparr>trace := trace w @ callback_events E c config [0..<Suc k]\<rparr>)"
      using Retry_complete[of 0 k E c config "Some err" w] a by simp
    show "length (callback_events E c config [0..<Suc k]) = Suc k"
      using len[of k] a by simp
    assume b: "fst (os_Stat E (ctx_String c ''credentials'') w) = Some ErrNotExist
                \<and> provision_result E c w = Inr config"
    have "announce_result E c config w = Some (Some err)"
      using r by (simp add: announce_result_def)
    from fresh_run_total(3)[OF _ _ this, of version] b
    show "\<exists>w'. RunPersistentQuickTunnel E c version w = Some (Returned (Some err), w')
                   \<and> files w' = files w"
      by blast
  next
    fix k
    assume a: "(\<forall>i<k. retried E c config i) \<and> attempt E c config k = None"
    show r: "Retry (callbackOperation E c config) (NextBackOff E) 0 w = None"
      using Retry_blocked[of 0 k E c config w] a by simp
    assume b: "fst (os_Stat E (ctx_String c ''credentials'') w) = Some ErrNotExist
                \<and> provision_result E c w = Inr config"
    have "announce_result E c config w = None"
      using r by (simp add: announce_result_def)
    from fresh_run_total(2)[OF _ _ this, of version] b
    show "RunPersistentQuickTunnel E c version w = None" by blast
  next
    assume a: "\<forall>i. retried E c config i"
    show r: "Retry (callbackOperation E c config) (NextBackOff E) 0 w = None"
      using a by (intro Retry_diverges) simp
    assume b: "fst (os_Stat E (ctx_String c ''credentials'') w) = Some ErrNotExist
                \<and> provision_result E c w = Inr config"
    have "announce_result E c config w = None"
      using r by (simp add: announce_result_def)
    from fresh_run_total(2)[OF _ _ this, of version] b
    show "RunPersistentQuickTunnel E c version w = None" by blast
  next
    fix r w'
    assume "Retry (callbackOperation E c config) (NextBackOff E) 0 w = Some (r, w')"
    from Retry_sound[OF this, of E c config]
    show "\<exists>k. (\<forall>i<k. retried E c config i) \<and> attempt E c config k = Some r
            \<and> (r \<noteq> None \<longrightarrow> NextBackOff E k = Stop)
            \<and> w' = w\<lparr>trace := trace w @ callback_events E c config [0..<Suc k]\<rparr>"
      by auto
  }
qed

theorem callback_retry_until_success_or_stop_witness:
  "attempt late_listener_env sample_Context sample_config 2 = Some None
   \<and> Retry (callbackOperation late_listener_env sample_Context sample_config)
         (NextBackOff late_listener_env) 0 fresh_world
       = Some (None, fresh_world\<lparr>trace :=
           [EvPostCallback 0 ''http://localhost:8080/callback'' ''abc.trycloudflare.com'' (Inr 500),
            EvPostCallback 1 ''http://localhost:8080/callback'' ''abc.trycloudflare.com'' (Inr 500),
            EvPostCallback 2 ''http://localhost:8080/callback'' ''abc.trycloudflare.com'' (Inr 200)]\<rparr>)
   \<and> (\<exists>k. attempt late_listener_env sample_Context sample_config k = Some None
          \<and> length (callback_events late_listener_env sample_Context sample_config [0..<Suc k])
              = 3)
   \<and> attempt dead_listener_env sample_Context sample_config 2 = Some (Some (New ''Callback error''))
   \<and> NextBackOff dead_listener_env 2 = Stop
   \<and> Retry (callbackOperation dead_listener_env sample_Context sample_config)
         (NextBackOff dead_listener_env) 0 fresh_world
       = Some (Some (New ''Callback error''), fresh_world\<lparr>trace :=
           [EvPostCallback 0 ''http://localhost:8080/callback'' ''abc.trycloudflare.com'' (Inr 500),
            EvPostCallback 1 ''http://localhost:8080/callback'' ''abc.trycloudflare.com'' (Inr 500),
            EvPostCallback 2 ''http://localhost:8080/callback'' ''abc.trycloudflare.com'' (Inr 500)]\<rparr>)
   \<and> (\<exists>w'. RunPersistentQuickTunnel dead_listener_env sample_Context ''DEV'' fresh_world
              = Some (Returned (Some (New ''Callback error'')), w')
          \<and> files w' = files fresh_world)
   \<and> attempt silent_listener_env sample_Context sample_config 1 = None
   \<and> Retry (callbackOperation silent_listener_env sample_Context sample_config)
         (NextBackOff silent_listener_env) 0 fresh_world = None
   \<and> RunPersistentQuickTunnel silent_listener_env sample_Context ''DEV'' fresh_world = None
   \<and> Retry (callbackOperation patient_env sample_Context sample_config)
         (NextBackOff patient_env) 0 fresh_world = None
   \<and> RunPersistentQuickTunnel patient_env sample_Context ''DEV'' fresh_world = None"
proof -
  note ev = attempt_def callback_post_def callback_error_def retried_def provision_result_def
  have l: "(\<forall>i<2. retried late_listener_env sample_Context sample_config i)
           \<and> attempt late_listener_env sample_Context sample_config 2 = Some None"
    by (simp add: ev run_defs sample_defs)
  have d: "(\<forall>i<2. retried dead_listener_env sample_Context sample_config i)
           \<and> attempt dead_listener_env sample_Context sample_config 2
               = Some (Some (New ''Callback error''))
           \<and> NextBackOff dead_listener_env 2 = Stop"
    by (simp add: ev run_defs sample_defs)
  have s: "(\<forall>i<1. retried silent_listener_env sample_Context sample_config i)
           \<and> attempt silent_listener_env sample_Context sample_config 1 = None"
    by (simp add: ev run_defs sample_defs)
  have p: "\<forall>i. retried patient_env sample_Context sample_config i"
    by (simp add: ev run_defs sample_defs)
  have fd: "fst (os_Stat dead_listener_env (ctx_String sample_Context ''credentials'') fresh_world)
              = Some ErrNotExist
            \<and> provision_result dead_listener_env sample_Context fresh_world = Inr sample_config"
    by (simp add: ev run_defs sample_defs)
  have fs: "fst (os_Stat silent_listener_env (ctx_String sample_Context ''credentials'') fresh_world)
              = Some ErrNotExist
            \<and> provision_result silent_listener_env sample_Context fresh_world = Inr sample_config"
    by (simp add: ev run_defs sample_defs)
  have fp: "fst (os_Stat patient_env (ctx_String sample_Context ''credentials'') fresh_world)
              = Some ErrNotExist
            \<and> provision_result patient_env sample_Context fresh_world = Inr sample_config"
    by (simp add: ev run_defs sample_defs)
  have tl: "callback_events late_listener_env sample_Context sample_config [0..<Suc 2] =
           [EvPostCallback 0 ''http://localhost:8080/callback'' ''abc.trycloudflare.com'' (Inr 500),
            EvPostCallback 1 ''http://localhost:8080/callback'' ''abc.trycloudflare.com'' (Inr 500),
            EvPostCallback 2 ''http://localhost:8080/callback'' ''abc.trycloudflare.com'' (Inr 200)]"
    by (simp add: callback_events_Cons ev run_defs sample_defs upt_rec)
  have td: "callback_events dead_listener_env sample_Context sample_config [0..<Suc 2] =
           [EvPostCallback 0 ''http://localhost:8080/callback'' ''abc.trycloudflare.com'' (Inr 500),
            EvPostCallback 1 ''http://localhost:8080/callback'' ''abc.trycloudflare.com'' (Inr 500),
            EvPostCallback 2 ''http://localhost:8080/callback'' ''abc.trycloudflare.com'' (Inr 500)]"
    by (simp add: callback_events_Cons ev run_defs sample_defs upt_rec)
  note T1 = callback_retry_until_success_or_stop
              [of late_listener_env sample_Context sample_config fresh_world "''DEV''"]
  note T2 = callback_retry_until_success_or_stop
              [of dead_listener_env sample_Context sample_config fresh_world "''DEV''"]
  note T3 = callback_retry_until_success_or_stop
              [of silent_listener_env sample_Context sample_config fresh_world "''DEV''"]
  note T4 = callback_retry_until_success_or_stop
              [of patient_env sample_Context sample_config fresh_world "''DEV''"]
  have a: "Retry (callbackOperation late_listener_env sample_Context sample_config)
         (NextBackOff late_listener_env) 0 fresh_world
       = Some (None, fresh_world\<lparr>trace :=
           [EvPostCallback 0 ''http://localhost:8080/callback'' ''abc.trycloudflare.com'' (Inr 500),
            EvPostCallback 1 ''http://localhost:8080/callback'' ''abc.trycloudflare.com'' (Inr 500),
            EvPostCallback 2 ''http://localhost:8080/callback'' ''abc.trycloudflare.com'' (Inr 200)]\<rparr>)"
    using T1[THEN conjunct1, rule_format, OF l] unfolding tl by (simp add: fresh_world_def)
  from T1[THEN conjunct2, THEN conjunct2, THEN conjunct2, THEN conjunct2, rule_format, OF a]
  obtain k where k: "attempt late_listener_env sample_Context sample_config k = Some None"
    "fresh_world\<lparr>trace :=
           [EvPostCallback 0 ''http://localhost:8080/callback'' ''abc.trycloudflare.com'' (Inr 500),
            EvPostCallback 1 ''http://localhost:8080/callback'' ''abc.trycloudflare.com'' (Inr 500),
            EvPostCallback 2 ''http://localhost:8080/callback'' ''abc.trycloudflare.com'' (Inr 200)]\<rparr>
     = fresh_world\<lparr>trace := trace fresh_world
          @ callback_events late_listener_env sample_Context sample_config [0..<Suc k]\<rparr>"
    by blast
  from arg_cong[OF k(2), of "\<lambda>v. length (trace v)"]
  have "length (callback_events late_listener_env sample_Context sample_config [0..<Suc k]) = 3"
    by (simp add: fresh_world_def del: upt_Suc)
  with k(1)
  have a': "\<exists>k. attempt late_listener_env sample_Context sample_config k = Some None
          \<and> length (callback_events late_listener_env sample_Context sample_config [0..<Suc k])
              = 3"
    by blast
  have b: "Retry (callbackOperation dead_listener_env sample_Context sample_config)
         (NextBackOff dead_listener_env) 0 fresh_world
       = Some (Some (New ''Callback error''), fresh_world\<lparr>trace :=
           [EvPostCallback 0 ''http://localhost:8080/callback'' ''abc.trycloudflare.com'' (Inr 500),
            EvPostCallback 1 ''http://localhost:8080/callback'' ''abc.trycloudflare.com'' (Inr 500),
            EvPostCallback 2 ''http://localhost:8080/callback'' ''abc.trycloudflare.com'' (Inr 500)]\<rparr>)"
    using T2[THEN conjunct2, THEN conjunct1, rule_format, OF d] unfolding td
    by (simp add: fresh_world_def)
  have b': "\<exists>w'. RunPersistentQuickTunnel dead_listener_env sample_Context ''DEV'' fresh_world
              = Some (Returned (Some (New ''Callback error'')), w')
          \<and> files w' = files fresh_world"
    using T2[THEN conjunct2, THEN conjunct1, rule_format, OF d] fd by blast
  have c: "Retry (callbackOperation silent_listener_env sample_Context sample_config)
             (NextBackOff silent_listener_env) 0 fresh_world = None
           \<and> RunPersistentQuickTunnel silent_listener_env sample_Context ''DEV'' fresh_world = None"
    using T3[THEN conjunct2, THEN conjunct2, THEN conjunct1, rule_format, OF s] fs by blast
  have e: "Retry (callbackOperation patient_env sample_Context sample_config)
             (NextBackOff patient_env) 0 fresh_world = None
           \<and> RunPersistentQuickTunnel patient_env sample_Context ''DEV'' fresh_world = None"
    using T4[THEN conjunct2, THEN conjunct2, THEN conjunct2, THEN conjunct1, THEN mp, OF p] fp
    by blast
  from l d s a a' b b' c e show ?thesis by blast
qed



end
